theory Spec2Isabelle
  imports Main "HOL-Library.Word"
begin

section \<open>The bigquery-emulator command: data\<close>

text \<open>
  A shallow embedding of \<^verbatim>\<open>cmd/bigquery-emulator/main.go\<close>. The command parses its
  configuration, sets an engine up step by step (\<^verbatim>\<open>runServer\<close>), then starts two
  goroutines and waits for the serving one. What the command does to the outside (the
  engine's methods, the standard streams, goroutines) is recorded in a trace of events;
  what the outside answers is a parameter of the model.
\<close>

subsection \<open>Go values\<close>

text \<open>
  \<^verbatim>\<open>flags.ErrorType\<close> of \<^verbatim>\<open>github.com/jessevdk/go-flags\<close>; the command only asks
  whether it is \<^verbatim>\<open>flags.ErrHelp\<close>.
\<close>

datatype flags_ErrorType =
    ErrUnknown | ErrExpectedArgument | ErrUnknownFlag | ErrUnknownGroup | ErrMarshal
  | ErrHelp | ErrNoArgumentForBool | ErrRequired | ErrShortNameTooLong
  | ErrDuplicatedFlag | ErrTag | ErrCommandRequired | ErrUnknownCommand
  | ErrInvalidChoice | ErrInvalidTag

text \<open>
  A non-nil Go \<^verbatim>\<open>error\<close>; a possibly nil one is an \<open>error option\<close>, with \<open>None\<close>
  for \<^verbatim>\<open>nil\<close>. \<open>ErrServerClosed\<close> is the one value \<^verbatim>\<open>http.ErrServerClosed\<close>;
  \<open>Errorf m\<close> is an error that wraps nothing, with message \<open>m\<close>; \<open>Wrapped m e\<close> is an
  error whose \<^verbatim>\<open>Unwrap\<close> gives \<open>e\<close> (as \<^verbatim>\<open>fmt.Errorf\<close> with \<^verbatim>\<open>%w\<close> builds);
  \<open>FlagsError t m\<close> is a \<^verbatim>\<open>*flags.Error\<close> with that \<^verbatim>\<open>Type\<close> and \<^verbatim>\<open>Message\<close>.
\<close>

datatype error =
    ErrServerClosed
  | Errorf string
  | Wrapped string error
  | FlagsError flags_ErrorType string

text \<open>
  \<^verbatim>\<open>errors.Is(err, target)\<close>: \<open>err\<close> or an error in its \<^verbatim>\<open>Unwrap\<close> chain is
  \<open>target\<close>; a nil \<open>err\<close> matches no error. (Error types with an \<^verbatim>\<open>Is\<close> method of
  their own are not among the constructors.)
\<close>

fun chain_has :: "error \<Rightarrow> error \<Rightarrow> bool" where
  "chain_has (Wrapped m e) target = (Wrapped m e = target \<or> chain_has e target)"
| "chain_has e target = (e = target)"

definition errors_Is :: "error option \<Rightarrow> error \<Rightarrow> bool" where
  "errors_Is err target = (case err of None \<Rightarrow> False | Some e \<Rightarrow> chain_has e target)"

text \<open>
  \<^verbatim>\<open>context.Context\<close>, as far as deadlines go. \<^verbatim>\<open>context.Background()\<close> is never
  cancelled and has no deadline; \<^verbatim>\<open>context.WithDeadline(parent, d)\<close> has the earlier
  of \<open>d\<close> and the parent's deadline.
\<close>

datatype Context = Background | WithDeadline Context nat

fun Deadline :: "Context \<Rightarrow> nat option" where
  "Deadline Background = None"
| "Deadline (WithDeadline parent d) =
     (case Deadline parent of None \<Rightarrow> Some d | Some p \<Rightarrow> Some (min p d))"

text \<open>The two signals the command registers for: \<^verbatim>\<open>os.Interrupt\<close> and \<^verbatim>\<open>syscall.SIGTERM\<close>.\<close>

datatype signal = Interrupt | SIGTERM

subsection \<open>The option struct and the exit code\<close>

type_synonym LogLevel = string
type_synonym LogFormat = string

record option_struct =
  Project :: string
  Dataset :: string
  Host :: string
  HTTPPort :: "16 word"
  GRPCPort :: "16 word"
  LogLevel :: LogLevel
  LogFormat :: LogFormat
  Database :: string
  DataFromYAML :: string
  Version :: bool

text \<open>The zero value of the struct (\<^verbatim>\<open>var opt option\<close>).\<close>

definition zero_option :: option_struct where
  "zero_option =
     \<lparr>Project = [], Dataset = [], Host = [], HTTPPort = 0, GRPCPort = 0, LogLevel = [],
      LogFormat = [], Database = [], DataFromYAML = [], Version = False\<rparr>"

type_synonym exitCode = int

definition exitOK :: exitCode where
  "exitOK = 0"

definition exitError :: exitCode where
  "exitError = 1"

subsection \<open>The packages \<^verbatim>\<open>types\<close> and \<^verbatim>\<open>server\<close>\<close>

text \<open>
  A dataset and a project of package \<^verbatim>\<open>types\<close>. The command reads and writes the
  fields \<^verbatim>\<open>ID\<close> and \<^verbatim>\<open>Datasets\<close> of a project; of a dataset it only knows the name
  it was made from.
\<close>

record dataset =
  dataset_ID :: string

record project =
  ID :: string
  Datasets :: "dataset list"

text \<open>
  Modelled from the spec: \<^verbatim>\<open>types.NewDataset\<close> is not in the command's source file. The
  specification's data model gives a sub-collection a string identity within its tenant
  and no further structure.
\<close>

definition NewDataset :: "string \<Rightarrow> dataset" where
  "NewDataset name = \<lparr>dataset_ID = name\<rparr>"

text \<open>
  Modelled from the spec: \<^verbatim>\<open>types.NewProject\<close> is not in the command's source file. The
  specification's data model gives a tenant a string identifier and an ordered collection
  of sub-collections, which only grows by appending; a tenant made from its identifier
  alone owns none yet.
\<close>

definition NewProject :: "string \<Rightarrow> project" where
  "NewProject ident = \<lparr>ID = ident, Datasets = []\<rparr>"

type_synonym Storage = string

text \<open>\<^verbatim>\<open>server.StructSource\<close> and \<^verbatim>\<open>server.YAMLSource\<close>: what \<^verbatim>\<open>Load\<close> is given.\<close>

datatype source = StructSource project | YAMLSource string

subsection \<open>The outside world\<close>

text \<open>
  Everything the command asks of its collaborators. \<open>TempStorage\<close> is the constant
  \<^verbatim>\<open>server.TempStorage\<close>; \<open>version\<close> and \<open>revision\<close> are the package variables of
  those names (set at link time). \<open>env_Parse\<close> is \<^verbatim>\<open>env.Parse(&opt)\<close>: it is given
  the struct and returns it filled in, with an error or nil. \<open>parser_Parse\<close> is
  \<^verbatim>\<open>flags.NewParser(opt, flags.Default).Parse()\<close>: it returns the remaining arguments, the
  struct as the parser left it and an error or nil. The other fields are the methods of
  the engine that setup calls, each giving the error it returns (\<open>None\<close> for nil).
\<close>

record world =
  TempStorage :: Storage
  version :: string
  revision :: string
  env_Parse :: "option_struct \<Rightarrow> option_struct \<times> error option"
  parser_Parse :: "option_struct \<Rightarrow> string list \<times> option_struct \<times> error option"
  server_New :: "Storage \<Rightarrow> error option"
  SetProject :: "string \<Rightarrow> error option"
  Load :: "source \<Rightarrow> error option"
  SetLogLevel :: "LogLevel \<Rightarrow> error option"
  SetLogFormat :: "LogFormat \<Rightarrow> error option"

text \<open>
  What the command writes. Each constructor stands for one formatted line of the source;
  the stream it goes to is given by the event that carries it.
\<close>

datatype message =
    Msg_env_error error
      \<comment> \<open>\<^verbatim>\<open>[bigquery-emulator] error parsing environment variables: %v\<close>\<close>
  | Msg_unknown_option_error error
      \<comment> \<open>\<^verbatim>\<open>[bigquery-emulator] unknown parsed option error: %[1]T %[1]v\<close>\<close>
  | Msg_error error
      \<comment> \<open>\<^verbatim>\<open>fmt.Fprintln(os.Stderr, err)\<close>\<close>
  | Msg_version string string
      \<comment> \<open>\<^verbatim>\<open>version: %s (%s)\<close>\<close>
  | Msg_receive signal
      \<comment> \<open>\<^verbatim>\<open>[bigquery-emulator] receive %s. shutdown gracefully\<close>\<close>
  | Msg_failed_to_stop error
      \<comment> \<open>\<^verbatim>\<open>[bigquery-emulator] failed to stop: %v\<close>\<close>
  | Msg_REST_listening string
      \<comment> \<open>\<^verbatim>\<open>[bigquery-emulator] REST server listening at %s\<close>\<close>
  | Msg_gRPC_listening string
      \<comment> \<open>\<^verbatim>\<open>[bigquery-emulator] gRPC server listening at %s\<close>\<close>

text \<open>
  The trace. \<open>Call_\<close> events are calls of the engine's methods with their arguments;
  \<open>Serve_returned\<close> is the value \<^verbatim>\<open>bqServer.Serve\<close> came back with.
\<close>

datatype event =
    Stdout message
  | Stderr message
  | Call_New Storage
  | Call_SetProject string
  | Call_Load source
  | Call_SetLogLevel LogLevel
  | Call_SetLogFormat LogFormat
  | Signal_Notify
  | Go_watch
  | Go_serve
  | Call_Stop Context
  | Call_Serve Context string string
  | Serve_returned "error option"

section \<open>Setup: the sequential part of \<^verbatim>\<open>runServer\<close>\<close>

text \<open>Lines 92 to 97: the storage the engine is built on.\<close>

definition select_storage :: "world \<Rightarrow> option_struct \<Rightarrow> Storage" where
  "select_storage w opt =
     (if Database opt = [] then TempStorage w
      else ''file:'' @ Database opt @ ''?cache=shared'')"

text \<open>Lines 98 to 101: the project that is loaded first.\<close>

definition initial_project :: "option_struct \<Rightarrow> project" where
  "initial_project opt =
     (let project = NewProject (Project opt)
      in if Dataset opt \<noteq> []
         then project\<lparr>Datasets := Datasets project @ [NewDataset (Dataset opt)]\<rparr>
         else project)"

text \<open>
  How setup ends: \<open>Return err\<close> when \<^verbatim>\<open>runServer\<close> returns \<open>err\<close> from one of its
  early returns, \<open>Proceed\<close> when it goes on to line 124.
\<close>

datatype setup_result = Return "error option" | Proceed

text \<open>
  Lines 85 to 122. The result pairs the events of setup, in order, with the way it ended.
\<close>

definition runServer_setup :: "world \<Rightarrow> option_struct \<Rightarrow> event list \<times> setup_result" where
  "runServer_setup w opt =
     (if Version opt then ([Stdout (Msg_version (version w) (revision w))], Return None)
      else if Project opt = []
      then ([], Return (Some (Errorf ''the required flag --project was not specified'')))
      else
       (let db = select_storage w opt;
            project = initial_project opt;
            t1 = [Call_New db];
            t2 = t1 @ [Call_SetProject (ID project)];
            t3 = t2 @ [Call_Load (StructSource project)];
            t4 = t3 @ [Call_SetLogLevel (LogLevel opt)];
            t5 = t4 @ [Call_SetLogFormat (LogFormat opt)];
            t6 = t5 @ [Call_Load (YAMLSource (DataFromYAML opt))]
        in (case server_New w db of Some err \<Rightarrow> (t1, Return (Some err)) | None \<Rightarrow>
           (case SetProject w (ID project) of Some err \<Rightarrow> (t2, Return (Some err)) | None \<Rightarrow>
           (case Load w (StructSource project) of Some err \<Rightarrow> (t3, Return (Some err)) | None \<Rightarrow>
           (case SetLogLevel w (LogLevel opt) of Some err \<Rightarrow> (t4, Return (Some err)) | None \<Rightarrow>
           (case SetLogFormat w (LogFormat opt) of Some err \<Rightarrow> (t5, Return (Some err)) | None \<Rightarrow>
           (if DataFromYAML opt \<noteq> []
            then (case Load w (YAMLSource (DataFromYAML opt)) of
                    Some err \<Rightarrow> (t6, Return (Some err))
                  | None \<Rightarrow> (t6, Proceed))
            else (t5, Proceed)))))))))"

section \<open>The concurrent part of \<^verbatim>\<open>runServer\<close>\<close>

text \<open>\<^verbatim>\<open>%d\<close> of an unsigned number: its decimal digits.\<close>

definition digit :: "nat \<Rightarrow> char" where
  "digit d = ''0123456789'' ! d"

fun decimal :: "nat \<Rightarrow> string" where
  "decimal n = (if n < 10 then [digit n] else decimal (n div 10) @ [digit (n mod 10)])"

text \<open>\<^verbatim>\<open>fmt.Sprintf("%s:%d", host, port)\<close>, lines 140 and 141.\<close>

definition addr :: "string \<Rightarrow> 16 word \<Rightarrow> string" where
  "addr host port = host @ '':'' @ decimal (unat port)"

text \<open>
  Lines 147 to 153: what \<^verbatim>\<open>runServer\<close> returns for the value received from \<^verbatim>\<open>done\<close>.
\<close>

definition select_done :: "error option \<Rightarrow> error option" where
  "select_done err = (if errors_Is err ErrServerClosed then None else err)"

text \<open>
  From line 124 on three tasks run: the goroutine of lines 128 to 136 (the watch task), the
  goroutine of lines 139 to 145 (the serve task) and \<^verbatim>\<open>runServer\<close> itself, blocked in the
  \<^verbatim>\<open>select\<close> of line 147. Each is at one of a few places.
\<close>

datatype watch_task =
    Watch_select           \<comment> \<open>blocked in \<^verbatim>\<open><-interrupt\<close>\<close>
  | Watch_in_Stop          \<comment> \<open>inside \<^verbatim>\<open>bqServer.Stop(ctx)\<close>\<close>
  | Watch_exited

datatype serve_task =
    Serve_init             \<comment> \<open>not yet run\<close>
  | Serve_in_Serve         \<comment> \<open>inside \<^verbatim>\<open>bqServer.Serve(ctx, httpAddr, grpcAddr)\<close>\<close>
  | Serve_sending "error option"   \<comment> \<open>blocked in \<^verbatim>\<open>done <- \<close> with that value\<close>
  | Serve_exited

datatype main_task =
    Main_select            \<comment> \<open>blocked in \<^verbatim>\<open><-done\<close>\<close>
  | Main_returned "error option"

text \<open>
  \<open>interrupt\<close> is the channel of that name, of capacity 1: empty or holding one signal.
  \<open>done\<close> has no buffer, so it has no state of its own: a value passes when the sender
  and the receiver meet.
\<close>

record coordinator =
  trace :: "event list"
  interrupt :: "signal option"
  watch :: watch_task
  serve :: serve_task
  main :: main_task

text \<open>
  What can happen next is chosen from outside: by the operating system (a signal), by the
  Go scheduler (which task runs) and by the engine (when and with what \<^verbatim>\<open>Stop\<close> and
  \<^verbatim>\<open>Serve\<close> return). A schedule is a finite list of such choices, so every
  interleaving of the three tasks and every behaviour of the engine is some schedule.
  Signals the command has not registered for, and signals that arrive before line 126, are
  not steps: there the operating system ends the process and \<^verbatim>\<open>run\<close> has no say.
\<close>

datatype step =
    Signal_arrives signal
  | Watch_receives
  | Stop_returns "error option"
  | Serve_starts
  | Serve_returns "error option"
  | Main_receives

text \<open>
  One step. A step that cannot happen in the state (the task it belongs to is elsewhere or
  blocked) leaves the state as it is. Once \<^verbatim>\<open>runServer\<close> has returned the process exits,
  so nothing more happens.
  \<^item> A registered signal is put into \<open>interrupt\<close> without blocking: it is dropped when
    the channel is full.
  \<^item> The watch task takes the signal, writes the line of line 131 and calls \<^verbatim>\<open>Stop\<close>
    with \<open>ctx\<close>; when \<^verbatim>\<open>Stop\<close> returns an error it writes the line of line 133.
  \<^item> The serve task writes the lines of lines 142 and 143 and calls \<^verbatim>\<open>Serve\<close>; when
    \<^verbatim>\<open>Serve\<close> returns it offers the value on \<open>done\<close>.
  \<^item> \<^verbatim>\<open>runServer\<close> receives the value and returns.
\<close>

definition coordinator_step :: "Context \<Rightarrow> option_struct \<Rightarrow> step \<Rightarrow> coordinator \<Rightarrow> coordinator" where
  "coordinator_step ctx opt st c =
     (if main c \<noteq> Main_select then c
      else case st of
        Signal_arrives s \<Rightarrow>
          (if interrupt c = None then c\<lparr>interrupt := Some s\<rparr> else c)
      | Watch_receives \<Rightarrow>
          (case (watch c, interrupt c) of
             (Watch_select, Some s) \<Rightarrow>
               c\<lparr>trace := trace c @ [Stdout (Msg_receive s), Call_Stop ctx],
                 interrupt := None, watch := Watch_in_Stop\<rparr>
           | _ \<Rightarrow> c)
      | Stop_returns r \<Rightarrow>
          (if watch c = Watch_in_Stop
           then (case r of
                   Some err \<Rightarrow>
                     c\<lparr>trace := trace c @ [Stderr (Msg_failed_to_stop err)],
                       watch := Watch_exited\<rparr>
                 | None \<Rightarrow> c\<lparr>watch := Watch_exited\<rparr>)
           else c)
      | Serve_starts \<Rightarrow>
          (if serve c = Serve_init
           then (let httpAddr = addr (Host opt) (HTTPPort opt);
                     grpcAddr = addr (Host opt) (GRPCPort opt)
                 in c\<lparr>trace := trace c @
                         [Stdout (Msg_REST_listening httpAddr),
                          Stdout (Msg_gRPC_listening grpcAddr),
                          Call_Serve ctx httpAddr grpcAddr],
                      serve := Serve_in_Serve\<rparr>)
           else c)
      | Serve_returns r \<Rightarrow>
          (if serve c = Serve_in_Serve
           then c\<lparr>trace := trace c @ [Serve_returned r], serve := Serve_sending r\<rparr>
           else c)
      | Main_receives \<Rightarrow>
          (case serve c of
             Serve_sending r \<Rightarrow> c\<lparr>serve := Serve_exited, main := Main_returned (select_done r)\<rparr>
           | _ \<Rightarrow> c))"

text \<open>The steps of a schedule, one after the other.\<close>

fun coordinator_run :: "Context \<Rightarrow> option_struct \<Rightarrow> step list \<Rightarrow> coordinator \<Rightarrow> coordinator" where
  "coordinator_run ctx opt [] c = c"
| "coordinator_run ctx opt (st # sts) c = coordinator_run ctx opt sts (coordinator_step ctx opt st c)"

text \<open>
  Lines 124 to 139: the context, the channel, the registration and the two goroutines,
  after the events of setup.
\<close>

definition coordinator_start :: "event list \<Rightarrow> coordinator" where
  "coordinator_start t =
     \<lparr>trace = t @ [Signal_Notify, Go_watch, Go_serve], interrupt = None,
      watch = Watch_select, serve = Serve_init, main = Main_select\<rparr>"

text \<open>
  How a run of \<^verbatim>\<open>runServer\<close> stands at the end of a schedule: it has returned an error
  or nil, or it is still blocked in the \<^verbatim>\<open>select\<close>.
\<close>

datatype outcome = Returns "error option" | Blocked

definition coordinator_outcome :: "coordinator \<Rightarrow> outcome" where
  "coordinator_outcome c = (case main c of Main_select \<Rightarrow> Blocked | Main_returned r \<Rightarrow> Returns r)"

text \<open>
  \<^verbatim>\<open>runServer\<close>, under a schedule for its concurrent part. The arguments left over by the
  flag parser are not used.
\<close>

definition runServer :: "world \<Rightarrow> step list \<Rightarrow> string list \<Rightarrow> option_struct \<Rightarrow> event list \<times> outcome" where
  "runServer w sched args opt =
     (case runServer_setup w opt of
        (t, Return err) \<Rightarrow> (t, Returns err)
      | (t, Proceed) \<Rightarrow>
          (let ctx = Background;
               c = coordinator_run ctx opt sched (coordinator_start t)
           in (trace c, coordinator_outcome c)))"

section \<open>\<^verbatim>\<open>run\<close> and the exit code\<close>

definition parseEnv :: "world \<Rightarrow> option_struct \<times> error option" where
  "parseEnv w = env_Parse w zero_option"

definition parseOpt :: "world \<Rightarrow> option_struct \<Rightarrow> string list \<times> option_struct \<times> error option" where
  "parseOpt w opt = parser_Parse w opt"

text \<open>
  Lines 47 to 70. The exit code is \<open>None\<close> while \<^verbatim>\<open>runServer\<close> is blocked: the process has
  not exited. \<^verbatim>\<open>main\<close> exits with the code \<^verbatim>\<open>run\<close> returns.
\<close>

definition run :: "world \<Rightarrow> step list \<Rightarrow> event list \<times> exitCode option" where
  "run w sched =
     (case parseEnv w of
        (opt, Some err) \<Rightarrow> ([Stderr (Msg_env_error err)], Some exitError)
      | (opt, None) \<Rightarrow>
          (case parseOpt w opt of
             (args, opt', Some err) \<Rightarrow>
               (case err of
                  FlagsError ty m \<Rightarrow>
                    (if ty = ErrHelp then ([], Some exitOK) else ([], Some exitError))
                | _ \<Rightarrow> ([Stderr (Msg_unknown_option_error err)], Some exitError))
           | (args, opt', None) \<Rightarrow>
               (case runServer w sched args opt' of
                  (t, Returns (Some err)) \<Rightarrow> (t @ [Stderr (Msg_error err)], Some exitError)
                | (t, Returns None) \<Rightarrow> (t, Some exitOK)
                | (t, Blocked) \<Rightarrow> (t, None))))"

section \<open>Reading a trace\<close>

text \<open>The sources given to \<^verbatim>\<open>Load\<close>, in order.\<close>

fun loads :: "event list \<Rightarrow> source list" where
  "loads [] = []"
| "loads (Call_Load src # es) = src # loads es"
| "loads (e # es) = loads es"

text \<open>The values \<^verbatim>\<open>Serve\<close> returned, in order.\<close>

fun served :: "event list \<Rightarrow> error option list" where
  "served [] = []"
| "served (Serve_returned r # es) = r # served es"
| "served (e # es) = served es"

text \<open>The contexts given to \<^verbatim>\<open>Stop\<close>, in order.\<close>

fun stop_contexts :: "event list \<Rightarrow> Context list" where
  "stop_contexts [] = []"
| "stop_contexts (Call_Stop ctx # es) = ctx # stop_contexts es"
| "stop_contexts (e # es) = stop_contexts es"

text \<open>
  The events of the concurrent part: the registration for signals, the two goroutines and
  what they do with the engine.
\<close>

fun task_event :: "event \<Rightarrow> bool" where
  "task_event Signal_Notify = True"
| "task_event Go_watch = True"
| "task_event Go_serve = True"
| "task_event (Call_Stop ctx) = True"
| "task_event (Call_Serve ctx h g) = True"
| "task_event (Serve_returned r) = True"
| "task_event (Stdout (Msg_receive s)) = True"
| "task_event (Stdout (Msg_REST_listening a)) = True"
| "task_event (Stdout (Msg_gRPC_listening a)) = True"
| "task_event (Stderr (Msg_failed_to_stop err)) = True"
| "task_event e = False"

text \<open>The line the watch task writes when \<^verbatim>\<open>Stop\<close> fails.\<close>

fun failed_to_stop :: "event \<Rightarrow> bool" where
  "failed_to_stop (Stderr (Msg_failed_to_stop err)) = True"
| "failed_to_stop e = False"

text \<open>The same step of a schedule, but with \<^verbatim>\<open>Stop\<close> returning nil.\<close>

fun stop_succeeds :: "step \<Rightarrow> step" where
  "stop_succeeds (Stop_returns r) = Stop_returns None"
| "stop_succeeds st = st"

section \<open>What holds of every state of the concurrent part\<close>

text \<open>
  The serve task and \<^verbatim>\<open>runServer\<close> move together: as long as \<^verbatim>\<open>Serve\<close> has not
  returned, nothing was received; once it returned \<open>v\<close>, that is the one value
  \<^verbatim>\<open>Serve\<close> returned, and \<^verbatim>\<open>runServer\<close> is blocked until it receives \<open>v\<close> and returns
  what line 149 makes of it.
\<close>

definition serve_invariant :: "coordinator \<Rightarrow> bool" where
  "serve_invariant c =
     (case serve c of
        Serve_init \<Rightarrow> served (trace c) = [] \<and> main c = Main_select
      | Serve_in_Serve \<Rightarrow> served (trace c) = [] \<and> main c = Main_select
      | Serve_sending v \<Rightarrow> served (trace c) = [v] \<and> main c = Main_select
      | Serve_exited \<Rightarrow>
          (case served (trace c) of
             [v] \<Rightarrow> main c = Main_returned (select_done v)
           | _ \<Rightarrow> False))"

text \<open>The watch task calls \<^verbatim>\<open>Stop\<close> at most once, with the context it was started with.\<close>

definition watch_invariant :: "Context \<Rightarrow> coordinator \<Rightarrow> bool" where
  "watch_invariant ctx c =
     (case watch c of
        Watch_select \<Rightarrow> stop_contexts (trace c) = []
      | Watch_in_Stop \<Rightarrow> stop_contexts (trace c) = [ctx]
      | Watch_exited \<Rightarrow> stop_contexts (trace c) = [ctx])"

section \<open>Examples\<close>

text \<open>
  A configuration with the defaults of the struct tags, a project and a dataset; and a
  world whose parsers produce it and whose engine accepts every call.
\<close>

definition example_option :: option_struct where
  "example_option =
     \<lparr>Project = ''proj1'', Dataset = ''ds1'', Host = ''0.0.0.0'', HTTPPort = 9050,
      GRPCPort = 9060, LogLevel = ''error'', LogFormat = ''console'', Database = [],
      DataFromYAML = [], Version = False\<rparr>"

definition example_world :: world where
  "example_world =
     \<lparr>TempStorage = ''file::memory:?cache=shared'', version = ''dev'', revision = ''HEAD'',
      env_Parse = (\<lambda>opt. (opt, None)),
      parser_Parse = (\<lambda>opt. ([], example_option, None)),
      server_New = (\<lambda>db. None), SetProject = (\<lambda>ident. None), Load = (\<lambda>src. None),
      SetLogLevel = (\<lambda>l. None), SetLogFormat = (\<lambda>f. None)\<rparr>"

text \<open>The same world, with the flag parser producing another configuration.\<close>

definition world_with :: "option_struct \<Rightarrow> world" where
  "world_with opt = example_world\<lparr>parser_Parse := (\<lambda>opt0. ([], opt, None))\<rparr>"

text \<open>A world whose engine rejects the seed file and accepts everything else.\<close>

definition bad_seed_file_world :: world where
  "bad_seed_file_world =
     example_world\<lparr>Load := (\<lambda>src. case src of
        StructSource p \<Rightarrow> None
      | YAMLSource path \<Rightarrow> Some (Errorf ''seed file is malformed''))\<rparr>"

section \<open>Facts about the model\<close>

lemma coordinator_step_returned:
  "main c = Main_returned r \<Longrightarrow> coordinator_step ctx opt st c = c"
  by (simp add: coordinator_step_def)

lemma coordinator_run_returned:
  "main c = Main_returned r \<Longrightarrow> coordinator_run ctx opt sts c = c"
  by (induction sts) (simp_all add: coordinator_step_returned)

lemma coordinator_run_append:
  "coordinator_run ctx opt (xs @ ys) c = coordinator_run ctx opt ys (coordinator_run ctx opt xs c)"
  by (induction xs arbitrary: c) simp_all

lemma coordinator_step_trace:
  "\<exists>t. trace (coordinator_step ctx opt st c) = trace c @ t"
  by (cases st)
     (auto simp: coordinator_step_def Let_def
           split: option.splits watch_task.splits serve_task.splits)

lemma coordinator_run_trace:
  "\<exists>t. trace (coordinator_run ctx opt sts c) = trace c @ t"
proof (induction sts arbitrary: c)
  case Nil
  show ?case by simp
next
  case (Cons st sts)
  obtain t1 where t1: "trace (coordinator_step ctx opt st c) = trace c @ t1"
    using coordinator_step_trace by blast
  obtain t2 where "trace (coordinator_run ctx opt sts (coordinator_step ctx opt st c))
      = trace (coordinator_step ctx opt st c) @ t2"
    using Cons.IH by blast
  with t1 show ?case by simp
qed

text \<open>The trace of \<^verbatim>\<open>runServer\<close> begins with the events of setup.\<close>

lemma runServer_trace_setup:
  "\<exists>t. fst (runServer w sched args opt) = fst (runServer_setup w opt) @ t"
proof (cases "runServer_setup w opt")
  case (Pair t0 res)
  show ?thesis
  proof (cases res)
    case (Return err)
    with Pair show ?thesis by (simp add: runServer_def)
  next
    case Proceed
    obtain t where "trace (coordinator_run Background opt sched (coordinator_start t0))
        = trace (coordinator_start t0) @ t"
      using coordinator_run_trace by blast
    with Pair Proceed show ?thesis
      by (simp add: runServer_def coordinator_start_def)
  qed
qed

lemma setup_first_call:
  "\<not> Version opt \<Longrightarrow> Project opt \<noteq> [] \<Longrightarrow>
   \<exists>t. fst (runServer_setup w opt) = Call_New (select_storage w opt) # t"
  by (simp add: runServer_setup_def Let_def split: option.splits)

section \<open>Storage selection\<close>

text \<open>
  C5. Storage selection is a total mapping without an error path: the handle is
  \<^verbatim>\<open>server.TempStorage\<close> when the database path is empty and exactly
  \<^verbatim>\<open>file:<path>?cache=shared\<close> otherwise; and whenever \<^verbatim>\<open>runServer\<close> gets past the
  version and project checks, its first event is the construction of the engine on that
  handle, so nothing can fail in between.
\<close>

theorem storage_selection:
  "select_storage w opt =
     (if Database opt = [] then TempStorage w else ''file:'' @ Database opt @ ''?cache=shared'')
   \<and> (\<not> Version opt \<and> Project opt \<noteq> [] \<longrightarrow>
        (\<exists>t. fst (runServer w sched args opt) = Call_New (select_storage w opt) # t))"
proof -
  have "\<exists>t. fst (runServer w sched args opt) = Call_New (select_storage w opt) # t"
    if nv: "\<not> Version opt" and np: "Project opt \<noteq> []"
  proof -
    obtain t1 where "fst (runServer_setup w opt) = Call_New (select_storage w opt) # t1"
      using setup_first_call [OF nv np] by blast
    moreover obtain t2 where "fst (runServer w sched args opt) = fst (runServer_setup w opt) @ t2"
      using runServer_trace_setup by blast
    ultimately show ?thesis by simp
  qed
  then show ?thesis by (simp add: select_storage_def)
qed

theorem storage_selection_witness:
  "select_storage example_world example_option = ''file::memory:?cache=shared''
   \<and> select_storage example_world (example_option\<lparr>Database := ''/tmp/bq.db''\<rparr>)
       = ''file:/tmp/bq.db?cache=shared''
   \<and> \<not> Version (example_option\<lparr>Database := ''/tmp/bq.db''\<rparr>)
   \<and> Project (example_option\<lparr>Database := ''/tmp/bq.db''\<rparr>) \<noteq> []
   \<and> (\<exists>t. fst (runServer example_world [] [] (example_option\<lparr>Database := ''/tmp/bq.db''\<rparr>))
          = Call_New ''file:/tmp/bq.db?cache=shared'' # t)"
proof -
  let ?opt = "example_option\<lparr>Database := ''/tmp/bq.db''\<rparr>"
  have hyp: "\<not> Version ?opt \<and> Project ?opt \<noteq> []"
    by (simp add: example_option_def)
  have mem: "select_storage example_world example_option = ''file::memory:?cache=shared''"
    using storage_selection [of example_world example_option "[]" "[]"]
    by (simp add: example_world_def example_option_def)
  have onfile: "select_storage example_world ?opt = ''file:/tmp/bq.db?cache=shared''"
    using storage_selection [of example_world ?opt "[]" "[]"]
    by (simp add: example_option_def)
  have "\<exists>t. fst (runServer example_world [] [] ?opt) = Call_New (select_storage example_world ?opt) # t"
    using storage_selection [of example_world ?opt "[]" "[]"] hyp by blast
  with hyp mem onfile show ?thesis by simp
qed

section \<open>The required project\<close>

text \<open>
  C2. With the version flag unset and an empty project, \<^verbatim>\<open>runServer\<close> returns the error
  about the missing flag before it does anything else, under every schedule; and when the
  parsers delivered that configuration, all \<^verbatim>\<open>run\<close> does is report the error and exit
  with code 1: no engine is built, nothing is loaded, no goroutine is started.
\<close>

theorem missing_project_fails:
  assumes "\<not> Version opt" and "Project opt = []"
  shows "runServer w sched args opt =
           ([], Returns (Some (Errorf ''the required flag --project was not specified'')))
         \<and> (parseEnv w = (opt0, None) \<and> parseOpt w opt0 = (args, opt, None) \<longrightarrow>
              run w sched =
                ([Stderr (Msg_error (Errorf ''the required flag --project was not specified''))],
                 Some exitError)
              \<and> exitError = 1)"
  using assms by (simp add: runServer_def runServer_setup_def run_def exitError_def)

theorem missing_project_fails_witness:
  "\<not> Version (example_option\<lparr>Project := []\<rparr>) \<and> Project (example_option\<lparr>Project := []\<rparr>) = []
   \<and> parseEnv (world_with (example_option\<lparr>Project := []\<rparr>)) = (zero_option, None)
   \<and> parseOpt (world_with (example_option\<lparr>Project := []\<rparr>)) zero_option
         = ([], example_option\<lparr>Project := []\<rparr>, None)
   \<and> run (world_with (example_option\<lparr>Project := []\<rparr>)) [Serve_starts, Signal_arrives SIGTERM] =
        ([Stderr (Msg_error (Errorf ''the required flag --project was not specified''))], Some 1)"
proof -
  let ?opt = "example_option\<lparr>Project := []\<rparr>"
  have h1: "\<not> Version ?opt" and h2: "Project ?opt = []"
    by (simp_all add: example_option_def)
  have h3: "parseEnv (world_with ?opt) = (zero_option, None)"
    by (simp add: parseEnv_def world_with_def example_world_def)
  have h4: "parseOpt (world_with ?opt) zero_option = ([], ?opt, None)"
    by (simp add: parseOpt_def world_with_def example_world_def)
  show ?thesis
    using missing_project_fails [OF h1 h2, of "world_with ?opt" "[Serve_starts, Signal_arrives SIGTERM]" "[]" zero_option]
          h1 h2 h3 h4
    by (simp add: exitError_def)
qed

section \<open>The version flag\<close>

text \<open>
  C10. With the version flag set, \<^verbatim>\<open>runServer\<close> writes the version line and returns nil,
  and that is all it does, whatever the rest of the configuration is (an empty project
  included) and whatever the schedule; the process then exits with code 0.
\<close>

theorem version_only_prints:
  assumes "Version opt"
  shows "runServer w sched args opt =
           ([Stdout (Msg_version (version w) (revision w))], Returns None)
         \<and> (parseEnv w = (opt0, None) \<and> parseOpt w opt0 = (args, opt, None) \<longrightarrow>
              run w sched = ([Stdout (Msg_version (version w) (revision w))], Some exitOK)
              \<and> exitOK = 0)"
  using assms by (simp add: runServer_def runServer_setup_def run_def exitOK_def)

theorem version_only_prints_witness:
  "Version (zero_option\<lparr>Version := True\<rparr>) \<and> Project (zero_option\<lparr>Version := True\<rparr>) = []
   \<and> runServer example_world [Serve_starts] [] (zero_option\<lparr>Version := True\<rparr>) =
        ([Stdout (Msg_version ''dev'' ''HEAD'')], Returns None)
   \<and> run (world_with (zero_option\<lparr>Version := True\<rparr>)) [Serve_starts] =
        ([Stdout (Msg_version ''dev'' ''HEAD'')], Some 0)"
proof -
  let ?opt = "zero_option\<lparr>Version := True\<rparr>"
  have h1: "Version ?opt" by simp
  have h2: "Project ?opt = []" by (simp add: zero_option_def)
  have h3: "parseEnv (world_with ?opt) = (zero_option, None)"
    by (simp add: parseEnv_def world_with_def example_world_def)
  have h4: "parseOpt (world_with ?opt) zero_option = ([], ?opt, None)"
    by (simp add: parseOpt_def world_with_def example_world_def)
  have "runServer example_world [Serve_starts] [] ?opt =
      ([Stdout (Msg_version ''dev'' ''HEAD'')], Returns None)"
    using version_only_prints [OF h1, of example_world "[Serve_starts]" "[]"]
    by (simp add: example_world_def)
  moreover have "run (world_with ?opt) [Serve_starts] =
      ([Stdout (Msg_version ''dev'' ''HEAD'')], Some 0)"
    using version_only_prints [OF h1, of "world_with ?opt" "[Serve_starts]" "[]" zero_option] h3 h4
    by (simp add: world_with_def example_world_def exitOK_def)
  ultimately show ?thesis using h1 h2 by simp
qed

section \<open>The initial project\<close>

text \<open>
  C9. The project built from a configuration has the configured identifier and, as its
  datasets, the one dataset of the configured name when that name is not empty and none
  otherwise; it depends on nothing but these two settings, so two constructions from the
  same configuration give the same tree.
\<close>

theorem initial_project_determined:
  "ID (initial_project opt) = Project opt
   \<and> Datasets (initial_project opt) = (if Dataset opt \<noteq> [] then [NewDataset (Dataset opt)] else [])
   \<and> map dataset_ID (Datasets (initial_project opt)) = (if Dataset opt \<noteq> [] then [Dataset opt] else [])
   \<and> (Project opt' = Project opt \<and> Dataset opt' = Dataset opt
        \<longrightarrow> initial_project opt' = initial_project opt)"
  by (simp add: initial_project_def NewProject_def NewDataset_def Let_def)

theorem initial_project_determined_witness:
  "initial_project example_option = \<lparr>ID = ''proj1'', Datasets = [\<lparr>dataset_ID = ''ds1''\<rparr>]\<rparr>
   \<and> Datasets (initial_project (example_option\<lparr>Dataset := []\<rparr>)) = []
   \<and> Project (example_option\<lparr>Host := ''localhost'', Version := True\<rparr>) = Project example_option
   \<and> Dataset (example_option\<lparr>Host := ''localhost'', Version := True\<rparr>) = Dataset example_option
   \<and> initial_project (example_option\<lparr>Host := ''localhost'', Version := True\<rparr>)
        = initial_project example_option"
  using initial_project_determined [of example_option "example_option\<lparr>Host := ''localhost'', Version := True\<rparr>"]
        initial_project_determined [of "example_option\<lparr>Dataset := []\<rparr>" example_option]
  by (simp add: example_option_def NewDataset_def)

section \<open>Seeding\<close>

lemma loads_append: "loads (xs @ ys) = loads xs @ loads ys"
  by (induction xs rule: loads.induct) simp_all

text \<open>The concurrent part adds only events of the tasks, and no \<^verbatim>\<open>Load\<close> among them.\<close>

lemma coordinator_step_adds:
  "\<exists>t. trace (coordinator_step ctx opt st c) = trace c @ t \<and> list_all task_event t \<and> loads t = []"
  by (cases st)
     (auto simp: coordinator_step_def Let_def
           split: option.splits watch_task.splits serve_task.splits)

lemma coordinator_run_adds:
  "\<exists>t. trace (coordinator_run ctx opt sts c) = trace c @ t \<and> list_all task_event t \<and> loads t = []"
proof (induction sts arbitrary: c)
  case Nil
  show ?case by simp
next
  case (Cons st sts)
  obtain t1 where t1: "trace (coordinator_step ctx opt st c) = trace c @ t1"
      "list_all task_event t1" "loads t1 = []"
    using coordinator_step_adds by blast
  obtain t2 where t2: "trace (coordinator_run ctx opt sts (coordinator_step ctx opt st c))
      = trace (coordinator_step ctx opt st c) @ t2" "list_all task_event t2" "loads t2 = []"
    using Cons.IH by blast
  from t1 t2 have "trace (coordinator_run ctx opt (st # sts) c) = trace c @ (t1 @ t2)
      \<and> list_all task_event (t1 @ t2) \<and> loads (t1 @ t2) = []"
    by (simp add: loads_append)
  then show ?case by blast
qed

text \<open>When setup goes through, the trace is: setup, the start of the tasks, what the tasks do.\<close>

lemma runServer_Proceed:
  assumes "runServer_setup w opt = (t0, Proceed)"
  shows "\<exists>t. fst (runServer w sched args opt) = t0 @ Signal_Notify # Go_watch # Go_serve # t
             \<and> list_all task_event t \<and> loads t = []"
proof -
  obtain t where "trace (coordinator_run Background opt sched (coordinator_start t0))
        = trace (coordinator_start t0) @ t" "list_all task_event t" "loads t = []"
    using coordinator_run_adds by blast
  with assms show ?thesis
    by (simp add: runServer_def coordinator_start_def)
qed

lemma runServer_Return:
  "runServer_setup w opt = (t0, Return err) \<Longrightarrow> runServer w sched args opt = (t0, Returns err)"
  by (simp add: runServer_def)

text \<open>Setup, case by case.\<close>

lemma setup_New_fails:
  "\<not> Version opt \<Longrightarrow> Project opt \<noteq> [] \<Longrightarrow> server_New w (select_storage w opt) = Some err \<Longrightarrow>
   runServer_setup w opt = ([Call_New (select_storage w opt)], Return (Some err))"
  by (simp add: runServer_setup_def Let_def)

lemma setup_SetProject_fails:
  "\<not> Version opt \<Longrightarrow> Project opt \<noteq> [] \<Longrightarrow> server_New w (select_storage w opt) = None \<Longrightarrow>
   SetProject w (ID (initial_project opt)) = Some err \<Longrightarrow>
   runServer_setup w opt =
     ([Call_New (select_storage w opt), Call_SetProject (ID (initial_project opt))],
      Return (Some err))"
  by (simp add: runServer_setup_def Let_def)

lemma setup_Load_struct_fails:
  "\<not> Version opt \<Longrightarrow> Project opt \<noteq> [] \<Longrightarrow> server_New w (select_storage w opt) = None \<Longrightarrow>
   SetProject w (ID (initial_project opt)) = None \<Longrightarrow>
   Load w (StructSource (initial_project opt)) = Some err \<Longrightarrow>
   runServer_setup w opt =
     ([Call_New (select_storage w opt), Call_SetProject (ID (initial_project opt)),
       Call_Load (StructSource (initial_project opt))],
      Return (Some err))"
  by (simp add: runServer_setup_def Let_def)

lemma setup_SetLogLevel_fails:
  "\<not> Version opt \<Longrightarrow> Project opt \<noteq> [] \<Longrightarrow> server_New w (select_storage w opt) = None \<Longrightarrow>
   SetProject w (ID (initial_project opt)) = None \<Longrightarrow>
   Load w (StructSource (initial_project opt)) = None \<Longrightarrow>
   SetLogLevel w (LogLevel opt) = Some err \<Longrightarrow>
   runServer_setup w opt =
     ([Call_New (select_storage w opt), Call_SetProject (ID (initial_project opt)),
       Call_Load (StructSource (initial_project opt)), Call_SetLogLevel (LogLevel opt)],
      Return (Some err))"
  by (simp add: runServer_setup_def Let_def)

lemma setup_SetLogFormat_fails:
  "\<not> Version opt \<Longrightarrow> Project opt \<noteq> [] \<Longrightarrow> server_New w (select_storage w opt) = None \<Longrightarrow>
   SetProject w (ID (initial_project opt)) = None \<Longrightarrow>
   Load w (StructSource (initial_project opt)) = None \<Longrightarrow>
   SetLogLevel w (LogLevel opt) = None \<Longrightarrow>
   SetLogFormat w (LogFormat opt) = Some err \<Longrightarrow>
   runServer_setup w opt =
     ([Call_New (select_storage w opt), Call_SetProject (ID (initial_project opt)),
       Call_Load (StructSource (initial_project opt)), Call_SetLogLevel (LogLevel opt),
       Call_SetLogFormat (LogFormat opt)],
      Return (Some err))"
  by (simp add: runServer_setup_def Let_def)

lemma setup_Load_YAML_fails:
  "\<not> Version opt \<Longrightarrow> Project opt \<noteq> [] \<Longrightarrow> server_New w (select_storage w opt) = None \<Longrightarrow>
   SetProject w (ID (initial_project opt)) = None \<Longrightarrow>
   Load w (StructSource (initial_project opt)) = None \<Longrightarrow>
   SetLogLevel w (LogLevel opt) = None \<Longrightarrow>
   SetLogFormat w (LogFormat opt) = None \<Longrightarrow>
   DataFromYAML opt \<noteq> [] \<Longrightarrow>
   Load w (YAMLSource (DataFromYAML opt)) = Some err \<Longrightarrow>
   runServer_setup w opt =
     ([Call_New (select_storage w opt), Call_SetProject (ID (initial_project opt)),
       Call_Load (StructSource (initial_project opt)), Call_SetLogLevel (LogLevel opt),
       Call_SetLogFormat (LogFormat opt), Call_Load (YAMLSource (DataFromYAML opt))],
      Return (Some err))"
  by (simp add: runServer_setup_def Let_def)

lemma setup_succeeds:
  "\<not> Version opt \<Longrightarrow> Project opt \<noteq> [] \<Longrightarrow> server_New w (select_storage w opt) = None \<Longrightarrow>
   SetProject w (ID (initial_project opt)) = None \<Longrightarrow>
   Load w (StructSource (initial_project opt)) = None \<Longrightarrow>
   SetLogLevel w (LogLevel opt) = None \<Longrightarrow>
   SetLogFormat w (LogFormat opt) = None \<Longrightarrow>
   DataFromYAML opt = [] \<or> Load w (YAMLSource (DataFromYAML opt)) = None \<Longrightarrow>
   runServer_setup w opt =
     ([Call_New (select_storage w opt), Call_SetProject (ID (initial_project opt)),
       Call_Load (StructSource (initial_project opt)), Call_SetLogLevel (LogLevel opt),
       Call_SetLogFormat (LogFormat opt)]
      @ (if DataFromYAML opt \<noteq> [] then [Call_Load (YAMLSource (DataFromYAML opt))] else []),
      Proceed)"
  by (auto simp add: runServer_setup_def Let_def)

text \<open>Setup ends in \<open>Proceed\<close> only when every step of it succeeded.\<close>

lemma setup_Proceed_only:
  assumes "snd (runServer_setup w opt) = Proceed"
  shows "\<not> Version opt \<and> Project opt \<noteq> [] \<and> server_New w (select_storage w opt) = None
         \<and> SetProject w (ID (initial_project opt)) = None
         \<and> Load w (StructSource (initial_project opt)) = None
         \<and> SetLogLevel w (LogLevel opt) = None
         \<and> SetLogFormat w (LogFormat opt) = None
         \<and> (DataFromYAML opt = [] \<or> Load w (YAMLSource (DataFromYAML opt)) = None)"
  using assms
  by (simp add: runServer_setup_def Let_def split: if_splits option.splits)

text \<open>Setup itself writes no event of the tasks.\<close>

lemma setup_no_task_event:
  "\<not> list_ex task_event (fst (runServer_setup w opt))"
  by (simp add: runServer_setup_def Let_def split: option.splits)

text \<open>
  C3. A run reaches seeding when the version flag is unset, the project is not empty and
  the engine was built and given its project. Then the first source loaded is always the
  structured one, made of the initial project; the file source is loaded second, and it is
  loaded exactly when a path is configured and the steps between the two (the first load
  and the two log settings) returned nil. Nothing else is ever loaded, under any schedule.
\<close>

theorem seed_order:
  assumes "\<not> Version opt" and "Project opt \<noteq> []"
    and "server_New w (select_storage w opt) = None"
    and "SetProject w (ID (initial_project opt)) = None"
  shows "loads (fst (runServer w sched args opt)) =
           StructSource (initial_project opt) #
           (if DataFromYAML opt \<noteq> []
               \<and> Load w (StructSource (initial_project opt)) = None
               \<and> SetLogLevel w (LogLevel opt) = None
               \<and> SetLogFormat w (LogFormat opt) = None
            then [YAMLSource (DataFromYAML opt)] else [])"
proof (cases "snd (runServer_setup w opt)")
  case (Return err)
  then have run: "runServer w sched args opt = (fst (runServer_setup w opt), Returns err)"
    using runServer_Return [of w opt "fst (runServer_setup w opt)" err] by (cases "runServer_setup w opt") simp
  show ?thesis
  proof (cases "Load w (StructSource (initial_project opt))")
    case (Some e)
    with assms run show ?thesis by (simp add: setup_Load_struct_fails)
  next
    case l1: None
    show ?thesis
    proof (cases "SetLogLevel w (LogLevel opt)")
      case (Some e)
      with assms run l1 show ?thesis by (simp add: setup_SetLogLevel_fails)
    next
      case l2: None
      show ?thesis
      proof (cases "SetLogFormat w (LogFormat opt)")
        case (Some e)
        with assms run l1 l2 show ?thesis by (simp add: setup_SetLogFormat_fails)
      next
        case l3: None
        show ?thesis
        proof (cases "DataFromYAML opt = [] \<or> Load w (YAMLSource (DataFromYAML opt)) = None")
          case True
          with assms l1 l2 l3 Return show ?thesis by (simp add: setup_succeeds)
        next
          case False
          then obtain e where "DataFromYAML opt \<noteq> []" "Load w (YAMLSource (DataFromYAML opt)) = Some e"
            by auto
          with assms run l1 l2 l3 show ?thesis by (simp add: setup_Load_YAML_fails)
        qed
      qed
    qed
  qed
next
  case Proceed
  then have ok: "Load w (StructSource (initial_project opt)) = None"
      "SetLogLevel w (LogLevel opt) = None" "SetLogFormat w (LogFormat opt) = None"
      "DataFromYAML opt = [] \<or> Load w (YAMLSource (DataFromYAML opt)) = None"
    using setup_Proceed_only [of w opt] by simp_all
  let ?t0 = "[Call_New (select_storage w opt), Call_SetProject (ID (initial_project opt)),
       Call_Load (StructSource (initial_project opt)), Call_SetLogLevel (LogLevel opt),
       Call_SetLogFormat (LogFormat opt)]
      @ (if DataFromYAML opt \<noteq> [] then [Call_Load (YAMLSource (DataFromYAML opt))] else [])"
  have "runServer_setup w opt = (?t0, Proceed)"
    using assms ok by (rule setup_succeeds)
  then obtain t where "fst (runServer w sched args opt) = ?t0 @ Signal_Notify # Go_watch # Go_serve # t"
      and "loads t = []"
    using runServer_Proceed by blast
  then show ?thesis using ok by (simp add: loads_append)
qed

theorem seed_order_witness:
  "\<not> Version (example_option\<lparr>DataFromYAML := ''seed.yaml''\<rparr>)
   \<and> Project (example_option\<lparr>DataFromYAML := ''seed.yaml''\<rparr>) \<noteq> []
   \<and> server_New example_world
        (select_storage example_world (example_option\<lparr>DataFromYAML := ''seed.yaml''\<rparr>)) = None
   \<and> SetProject example_world
        (ID (initial_project (example_option\<lparr>DataFromYAML := ''seed.yaml''\<rparr>))) = None
   \<and> loads (fst (runServer example_world [Serve_starts, Signal_arrives Interrupt] []
                  (example_option\<lparr>DataFromYAML := ''seed.yaml''\<rparr>)))
        = [StructSource \<lparr>ID = ''proj1'', Datasets = [\<lparr>dataset_ID = ''ds1''\<rparr>]\<rparr>,
           YAMLSource ''seed.yaml'']
   \<and> loads (fst (runServer example_world [Serve_starts, Signal_arrives Interrupt] []
                  example_option))
        = [StructSource \<lparr>ID = ''proj1'', Datasets = [\<lparr>dataset_ID = ''ds1''\<rparr>]\<rparr>]"
proof -
  let ?opt = "example_option\<lparr>DataFromYAML := ''seed.yaml''\<rparr>"
  let ?sched = "[Serve_starts, Signal_arrives Interrupt]"
  have h1: "\<not> Version ?opt" and h2: "Project ?opt \<noteq> []"
    by (simp_all add: example_option_def)
  have h3: "server_New example_world (select_storage example_world ?opt) = None"
    and h4: "SetProject example_world (ID (initial_project ?opt)) = None"
    by (simp_all add: example_world_def)
  have g1: "\<not> Version example_option" and g2: "Project example_option \<noteq> []"
    by (simp_all add: example_option_def)
  have g3: "server_New example_world (select_storage example_world example_option) = None"
    and g4: "SetProject example_world (ID (initial_project example_option)) = None"
    by (simp_all add: example_world_def)
  have a: "loads (fst (runServer example_world ?sched [] ?opt))
      = [StructSource \<lparr>ID = ''proj1'', Datasets = [\<lparr>dataset_ID = ''ds1''\<rparr>]\<rparr>, YAMLSource ''seed.yaml'']"
    using seed_order [OF h1 h2 h3 h4, of ?sched "[]"]
    by (simp add: example_world_def example_option_def initial_project_def NewProject_def
                  NewDataset_def)
  have b: "loads (fst (runServer example_world ?sched [] example_option))
      = [StructSource \<lparr>ID = ''proj1'', Datasets = [\<lparr>dataset_ID = ''ds1''\<rparr>]\<rparr>]"
    using seed_order [OF g1 g2 g3 g4, of ?sched "[]"]
    by (simp add: example_world_def example_option_def initial_project_def NewProject_def
                  NewDataset_def)
  from h1 h2 h3 h4 a b show ?thesis by simp
qed

text \<open>
  C4. When loading the structured source fails, \<^verbatim>\<open>runServer\<close> returns that error and the
  trace ends with that call; likewise when loading the file source fails. And whenever a
  trace holds an event of the concurrent part (the registration for signals, a goroutine,
  a call of \<^verbatim>\<open>Serve\<close> or \<^verbatim>\<open>Stop\<close>), every step of setup returned nil, and all the
  events of setup come before the first of those events.
\<close>

theorem seed_error_aborts:
  "(\<not> Version opt \<and> Project opt \<noteq> [] \<and> server_New w (select_storage w opt) = None
      \<and> SetProject w (ID (initial_project opt)) = None
      \<and> Load w (StructSource (initial_project opt)) = Some err \<longrightarrow>
      runServer w sched args opt =
        ([Call_New (select_storage w opt), Call_SetProject (ID (initial_project opt)),
          Call_Load (StructSource (initial_project opt))],
         Returns (Some err)))
   \<and> (\<not> Version opt \<and> Project opt \<noteq> [] \<and> server_New w (select_storage w opt) = None
      \<and> SetProject w (ID (initial_project opt)) = None
      \<and> Load w (StructSource (initial_project opt)) = None
      \<and> SetLogLevel w (LogLevel opt) = None \<and> SetLogFormat w (LogFormat opt) = None
      \<and> DataFromYAML opt \<noteq> [] \<and> Load w (YAMLSource (DataFromYAML opt)) = Some err \<longrightarrow>
      runServer w sched args opt =
        ([Call_New (select_storage w opt), Call_SetProject (ID (initial_project opt)),
          Call_Load (StructSource (initial_project opt)), Call_SetLogLevel (LogLevel opt),
          Call_SetLogFormat (LogFormat opt), Call_Load (YAMLSource (DataFromYAML opt))],
         Returns (Some err)))
   \<and> (list_ex task_event (fst (runServer w sched args opt)) \<longrightarrow>
      \<not> Version opt \<and> Project opt \<noteq> [] \<and> server_New w (select_storage w opt) = None
      \<and> SetProject w (ID (initial_project opt)) = None
      \<and> Load w (StructSource (initial_project opt)) = None
      \<and> SetLogLevel w (LogLevel opt) = None \<and> SetLogFormat w (LogFormat opt) = None
      \<and> (DataFromYAML opt = [] \<or> Load w (YAMLSource (DataFromYAML opt)) = None)
      \<and> (\<exists>t. fst (runServer w sched args opt) =
            [Call_New (select_storage w opt), Call_SetProject (ID (initial_project opt)),
             Call_Load (StructSource (initial_project opt)), Call_SetLogLevel (LogLevel opt),
             Call_SetLogFormat (LogFormat opt)]
            @ (if DataFromYAML opt \<noteq> [] then [Call_Load (YAMLSource (DataFromYAML opt))] else [])
            @ Signal_Notify # Go_watch # Go_serve # t))"
proof -
  have first: "runServer w sched args opt =
      ([Call_New (select_storage w opt), Call_SetProject (ID (initial_project opt)),
        Call_Load (StructSource (initial_project opt))], Returns (Some err))"
    if "\<not> Version opt \<and> Project opt \<noteq> [] \<and> server_New w (select_storage w opt) = None
      \<and> SetProject w (ID (initial_project opt)) = None
      \<and> Load w (StructSource (initial_project opt)) = Some err"
    using that by (simp add: setup_Load_struct_fails runServer_Return)
  have second: "runServer w sched args opt =
      ([Call_New (select_storage w opt), Call_SetProject (ID (initial_project opt)),
        Call_Load (StructSource (initial_project opt)), Call_SetLogLevel (LogLevel opt),
        Call_SetLogFormat (LogFormat opt), Call_Load (YAMLSource (DataFromYAML opt))],
       Returns (Some err))"
    if "\<not> Version opt \<and> Project opt \<noteq> [] \<and> server_New w (select_storage w opt) = None
      \<and> SetProject w (ID (initial_project opt)) = None
      \<and> Load w (StructSource (initial_project opt)) = None
      \<and> SetLogLevel w (LogLevel opt) = None \<and> SetLogFormat w (LogFormat opt) = None
      \<and> DataFromYAML opt \<noteq> [] \<and> Load w (YAMLSource (DataFromYAML opt)) = Some err"
    using that by (simp add: setup_Load_YAML_fails runServer_Return)
  have third: "\<not> Version opt \<and> Project opt \<noteq> [] \<and> server_New w (select_storage w opt) = None
      \<and> SetProject w (ID (initial_project opt)) = None
      \<and> Load w (StructSource (initial_project opt)) = None
      \<and> SetLogLevel w (LogLevel opt) = None \<and> SetLogFormat w (LogFormat opt) = None
      \<and> (DataFromYAML opt = [] \<or> Load w (YAMLSource (DataFromYAML opt)) = None)
      \<and> (\<exists>t. fst (runServer w sched args opt) =
            [Call_New (select_storage w opt), Call_SetProject (ID (initial_project opt)),
             Call_Load (StructSource (initial_project opt)), Call_SetLogLevel (LogLevel opt),
             Call_SetLogFormat (LogFormat opt)]
            @ (if DataFromYAML opt \<noteq> [] then [Call_Load (YAMLSource (DataFromYAML opt))] else [])
            @ Signal_Notify # Go_watch # Go_serve # t)"
    if ev: "list_ex task_event (fst (runServer w sched args opt))"
  proof -
    have proceed: "snd (runServer_setup w opt) = Proceed"
    proof (cases "snd (runServer_setup w opt)")
      case (Return e)
      then have "fst (runServer w sched args opt) = fst (runServer_setup w opt)"
        using runServer_Return [of w opt "fst (runServer_setup w opt)" e]
        by (cases "runServer_setup w opt") simp
      with ev setup_no_task_event [of w opt] show ?thesis by simp
    next
      case Proceed
      then show ?thesis .
    qed
    then have ok: "\<not> Version opt \<and> Project opt \<noteq> [] \<and> server_New w (select_storage w opt) = None
        \<and> SetProject w (ID (initial_project opt)) = None
        \<and> Load w (StructSource (initial_project opt)) = None
        \<and> SetLogLevel w (LogLevel opt) = None \<and> SetLogFormat w (LogFormat opt) = None
        \<and> (DataFromYAML opt = [] \<or> Load w (YAMLSource (DataFromYAML opt)) = None)"
      by (rule setup_Proceed_only)
    let ?t0 = "[Call_New (select_storage w opt), Call_SetProject (ID (initial_project opt)),
         Call_Load (StructSource (initial_project opt)), Call_SetLogLevel (LogLevel opt),
         Call_SetLogFormat (LogFormat opt)]
        @ (if DataFromYAML opt \<noteq> [] then [Call_Load (YAMLSource (DataFromYAML opt))] else [])"
    have "runServer_setup w opt = (?t0, Proceed)"
      using ok by (simp add: setup_succeeds)
    then obtain t where "fst (runServer w sched args opt) = ?t0 @ Signal_Notify # Go_watch # Go_serve # t"
      using runServer_Proceed by blast
    with ok show ?thesis by auto
  qed
  from first second third show ?thesis by blast
qed

theorem seed_error_aborts_witness:
  "\<not> Version (example_option\<lparr>DataFromYAML := ''seed.yaml''\<rparr>)
   \<and> Project (example_option\<lparr>DataFromYAML := ''seed.yaml''\<rparr>) \<noteq> []
   \<and> DataFromYAML (example_option\<lparr>DataFromYAML := ''seed.yaml''\<rparr>) \<noteq> []
   \<and> Load bad_seed_file_world (StructSource (initial_project (example_option\<lparr>DataFromYAML := ''seed.yaml''\<rparr>))) = None
   \<and> Load bad_seed_file_world (YAMLSource ''seed.yaml'') = Some (Errorf ''seed file is malformed'')
   \<and> runServer bad_seed_file_world
        [Serve_starts, Serve_returns (Some ErrServerClosed), Main_receives] []
        (example_option\<lparr>DataFromYAML := ''seed.yaml''\<rparr>)
      = ([Call_New ''file::memory:?cache=shared'', Call_SetProject ''proj1'',
          Call_Load (StructSource \<lparr>ID = ''proj1'', Datasets = [\<lparr>dataset_ID = ''ds1''\<rparr>]\<rparr>),
          Call_SetLogLevel ''error'', Call_SetLogFormat ''console'',
          Call_Load (YAMLSource ''seed.yaml'')],
         Returns (Some (Errorf ''seed file is malformed'')))
   \<and> list_ex task_event (fst (runServer example_world [Serve_starts] [] example_option))
   \<and> (\<exists>t. fst (runServer example_world [Serve_starts] [] example_option) =
          [Call_New ''file::memory:?cache=shared'', Call_SetProject ''proj1'',
           Call_Load (StructSource \<lparr>ID = ''proj1'', Datasets = [\<lparr>dataset_ID = ''ds1''\<rparr>]\<rparr>),
           Call_SetLogLevel ''error'', Call_SetLogFormat ''console'',
           Signal_Notify, Go_watch, Go_serve] @ t)"
proof -
  let ?opt = "example_option\<lparr>DataFromYAML := ''seed.yaml''\<rparr>"
  let ?sched = "[Serve_starts, Serve_returns (Some ErrServerClosed), Main_receives]"
  have h: "\<not> Version ?opt \<and> Project ?opt \<noteq> []
      \<and> server_New bad_seed_file_world (select_storage bad_seed_file_world ?opt) = None
      \<and> SetProject bad_seed_file_world (ID (initial_project ?opt)) = None
      \<and> Load bad_seed_file_world (StructSource (initial_project ?opt)) = None
      \<and> SetLogLevel bad_seed_file_world (LogLevel ?opt) = None
      \<and> SetLogFormat bad_seed_file_world (LogFormat ?opt) = None
      \<and> DataFromYAML ?opt \<noteq> []
      \<and> Load bad_seed_file_world (YAMLSource (DataFromYAML ?opt)) = Some (Errorf ''seed file is malformed'')"
    by (simp add: example_option_def bad_seed_file_world_def example_world_def)
  have a: "runServer bad_seed_file_world ?sched [] ?opt
      = ([Call_New ''file::memory:?cache=shared'', Call_SetProject ''proj1'',
          Call_Load (StructSource \<lparr>ID = ''proj1'', Datasets = [\<lparr>dataset_ID = ''ds1''\<rparr>]\<rparr>),
          Call_SetLogLevel ''error'', Call_SetLogFormat ''console'',
          Call_Load (YAMLSource ''seed.yaml'')],
         Returns (Some (Errorf ''seed file is malformed'')))"
    using seed_error_aborts [of ?opt bad_seed_file_world "Errorf ''seed file is malformed''" ?sched "[]"] h
    by (simp add: example_option_def bad_seed_file_world_def example_world_def
                  select_storage_def initial_project_def NewProject_def NewDataset_def)
  have ev: "list_ex task_event (fst (runServer example_world [Serve_starts] [] example_option))"
    by (simp add: runServer_def runServer_setup_def example_world_def example_option_def
                  coordinator_start_def coordinator_step_def Let_def)
  have b: "\<exists>t. fst (runServer example_world [Serve_starts] [] example_option) =
          [Call_New ''file::memory:?cache=shared'', Call_SetProject ''proj1'',
           Call_Load (StructSource \<lparr>ID = ''proj1'', Datasets = [\<lparr>dataset_ID = ''ds1''\<rparr>]\<rparr>),
           Call_SetLogLevel ''error'', Call_SetLogFormat ''console'',
           Signal_Notify, Go_watch, Go_serve] @ t"
    using seed_error_aborts [of example_option example_world ErrServerClosed "[Serve_starts]" "[]"] ev
    by (simp add: example_option_def example_world_def
                  select_storage_def initial_project_def NewProject_def NewDataset_def)
  from h a ev b show ?thesis by (simp add: example_option_def)
qed

section \<open>Exit codes\<close>

lemma run_after_parse:
  assumes "parseEnv w = (opt0, None)" and "parseOpt w opt0 = (args, opt, None)"
  shows "run w sched =
     (case runServer w sched args opt of
        (t, Returns (Some err)) \<Rightarrow> (t @ [Stderr (Msg_error err)], Some exitError)
      | (t, Returns None) \<Rightarrow> (t, Some exitOK)
      | (t, Blocked) \<Rightarrow> (t, None))"
  using assms by (simp add: run_def)

text \<open>
  C8. \<^verbatim>\<open>exitOK\<close> is 0 and \<^verbatim>\<open>exitError\<close> is 1. \<^verbatim>\<open>run\<close> returns \<^verbatim>\<open>exitOK\<close> when the flag
  parser reports a \<^verbatim>\<open>flags.Error\<close> of type \<^verbatim>\<open>ErrHelp\<close>, and when the parsed
  configuration has the version flag set (\<^verbatim>\<open>runServer\<close> then returns nil), and whenever
  \<^verbatim>\<open>runServer\<close> returns nil. It returns \<^verbatim>\<open>exitError\<close> when the environment cannot be
  parsed, when the flag parser fails in any other way, and whenever \<^verbatim>\<open>runServer\<close> returns
  an error, be it from setup or from serving.
\<close>

theorem exit_codes:
  "exitOK = 0 \<and> exitError = 1
   \<and> (parseEnv w = (opt0, None) \<and> parseOpt w opt0 = (args, opt, Some (FlagsError ErrHelp m)) \<longrightarrow>
        run w sched = ([], Some exitOK))
   \<and> (parseEnv w = (opt0, None) \<and> parseOpt w opt0 = (args, opt, None) \<and> Version opt \<longrightarrow>
        snd (runServer w sched args opt) = Returns None \<and> snd (run w sched) = Some exitOK)
   \<and> (parseEnv w = (opt0, None) \<and> parseOpt w opt0 = (args, opt, None)
        \<and> snd (runServer w sched args opt) = Returns None \<longrightarrow>
        snd (run w sched) = Some exitOK)
   \<and> (parseEnv w = (opt0, None) \<and> parseOpt w opt0 = (args, opt, None)
        \<and> snd (runServer w sched args opt) = Returns (Some err) \<longrightarrow>
        snd (run w sched) = Some exitError
        \<and> fst (run w sched) = fst (runServer w sched args opt) @ [Stderr (Msg_error err)])
   \<and> (parseEnv w = (opt0, None) \<and> parseOpt w opt0 = (args, opt, None)
        \<and> snd (runServer_setup w opt) = Return (Some err) \<longrightarrow>
        snd (run w sched) = Some exitError)
   \<and> (parseEnv w = (opt0, Some err) \<longrightarrow> snd (run w sched) = Some exitError)
   \<and> (parseEnv w = (opt0, None) \<and> parseOpt w opt0 = (args, opt, Some err)
        \<and> (\<forall>m. err \<noteq> FlagsError ErrHelp m) \<longrightarrow>
        snd (run w sched) = Some exitError)"
proof -
  have on_help: "run w sched = ([], Some exitOK)"
    if "parseEnv w = (opt0, None) \<and> parseOpt w opt0 = (args, opt, Some (FlagsError ErrHelp m))"
    using that by (simp add: run_def)
  have on_version: "snd (runServer w sched args opt) = Returns None \<and> snd (run w sched) = Some exitOK"
    if "parseEnv w = (opt0, None) \<and> parseOpt w opt0 = (args, opt, None) \<and> Version opt"
    using that by (simp add: run_after_parse runServer_def runServer_setup_def)
  have on_nil: "snd (run w sched) = Some exitOK"
    if "parseEnv w = (opt0, None) \<and> parseOpt w opt0 = (args, opt, None)
        \<and> snd (runServer w sched args opt) = Returns None"
    using that by (cases "runServer w sched args opt") (simp add: run_after_parse)
  have on_error: "snd (run w sched) = Some exitError
        \<and> fst (run w sched) = fst (runServer w sched args opt) @ [Stderr (Msg_error err)]"
    if "parseEnv w = (opt0, None) \<and> parseOpt w opt0 = (args, opt, None)
        \<and> snd (runServer w sched args opt) = Returns (Some err)"
    using that by (cases "runServer w sched args opt") (simp add: run_after_parse)
  have on_setup: "snd (run w sched) = Some exitError"
    if "parseEnv w = (opt0, None) \<and> parseOpt w opt0 = (args, opt, None)
        \<and> snd (runServer_setup w opt) = Return (Some err)"
    using that by (cases "runServer_setup w opt") (simp add: run_after_parse runServer_def)
  have on_env: "snd (run w sched) = Some exitError" if "parseEnv w = (opt0, Some err)"
    using that by (simp add: run_def)
  have on_flag: "snd (run w sched) = Some exitError"
    if "parseEnv w = (opt0, None) \<and> parseOpt w opt0 = (args, opt, Some err)
        \<and> (\<forall>m. err \<noteq> FlagsError ErrHelp m)"
    using that by (cases err) (simp_all add: run_def)
  from on_help on_version on_nil on_error on_setup on_env on_flag show ?thesis
    by (simp add: exitOK_def exitError_def)
qed

theorem exit_codes_witness:
  "run (example_world\<lparr>parser_Parse := (\<lambda>opt. ([], opt, Some (FlagsError ErrHelp ''Usage'')))\<rparr>)
       [Serve_starts] = ([], Some 0)
   \<and> snd (run (world_with (example_option\<lparr>Version := True\<rparr>)) [Serve_starts]) = Some 0
   \<and> snd (run (example_world\<lparr>server_New := (\<lambda>db. Some (Errorf ''unable to open database file''))\<rparr>)
            [Serve_starts]) = Some 1
   \<and> snd (run (example_world\<lparr>env_Parse := (\<lambda>opt. (opt, Some (Errorf ''bad port'')))\<rparr>)
            [Serve_starts]) = Some 1
   \<and> snd (run (example_world\<lparr>parser_Parse := (\<lambda>opt. ([], opt, Some (FlagsError ErrUnknownFlag ''unknown flag'')))\<rparr>)
            [Serve_starts]) = Some 1"
proof -
  let ?usage = "example_world\<lparr>parser_Parse := (\<lambda>opt. ([], opt, Some (FlagsError ErrHelp ''Usage'')))\<rparr>"
  let ?vers = "world_with (example_option\<lparr>Version := True\<rparr>)"
  let ?new = "example_world\<lparr>server_New := (\<lambda>db. Some (Errorf ''unable to open database file''))\<rparr>"
  let ?env = "example_world\<lparr>env_Parse := (\<lambda>opt. (opt, Some (Errorf ''bad port'')))\<rparr>"
  let ?flag = "example_world\<lparr>parser_Parse := (\<lambda>opt. ([], opt, Some (FlagsError ErrUnknownFlag ''unknown flag'')))\<rparr>"
  have a: "run ?usage [Serve_starts] = ([], Some 0)"
    using exit_codes [of ?usage zero_option "[]" zero_option "''Usage''" "[Serve_starts]"]
    by (simp add: parseEnv_def parseOpt_def example_world_def)
  have b: "snd (run ?vers [Serve_starts]) = Some 0"
    using exit_codes [of ?vers zero_option "[]" "example_option\<lparr>Version := True\<rparr>" "[]" "[Serve_starts]"]
    by (simp add: parseEnv_def parseOpt_def world_with_def example_world_def)
  have c: "snd (run ?new [Serve_starts]) = Some 1"
    using exit_codes [of ?new zero_option "[]" example_option "[]" "[Serve_starts]"
                         "Errorf ''unable to open database file''"]
    by (simp add: parseEnv_def parseOpt_def example_world_def example_option_def
                  runServer_setup_def Let_def)
  have d: "snd (run ?env [Serve_starts]) = Some 1"
    using exit_codes [of ?env zero_option "[]" zero_option "[]" "[Serve_starts]" "Errorf ''bad port''"]
    by (simp add: parseEnv_def example_world_def)
  have e: "snd (run ?flag [Serve_starts]) = Some 1"
    using exit_codes [of ?flag zero_option "[]" zero_option "[]" "[Serve_starts]"
                         "FlagsError ErrUnknownFlag ''unknown flag''"]
    by (simp add: parseEnv_def parseOpt_def example_world_def)
  from a b c d e show ?thesis by simp
qed

section \<open>The coordinator\<close>

lemma served_append: "served (xs @ ys) = served xs @ served ys"
  by (induction xs rule: served.induct) simp_all

lemma stop_contexts_append: "stop_contexts (xs @ ys) = stop_contexts xs @ stop_contexts ys"
  by (induction xs rule: stop_contexts.induct) simp_all

lemma serve_invariant_step:
  "serve_invariant c \<Longrightarrow> serve_invariant (coordinator_step ctx opt st c)"
  by (cases st)
     (auto simp: serve_invariant_def coordinator_step_def Let_def served_append
           split: option.splits watch_task.splits serve_task.splits list.splits)

lemma serve_invariant_run:
  "serve_invariant c \<Longrightarrow> serve_invariant (coordinator_run ctx opt sts c)"
  by (induction sts arbitrary: c) (simp_all add: serve_invariant_step)

lemma watch_invariant_step:
  "watch_invariant ctx c \<Longrightarrow> watch_invariant ctx (coordinator_step ctx opt st c)"
  by (cases st)
     (auto simp: watch_invariant_def coordinator_step_def Let_def stop_contexts_append
           split: option.splits watch_task.splits serve_task.splits)

lemma watch_invariant_run:
  "watch_invariant ctx c \<Longrightarrow> watch_invariant ctx (coordinator_run ctx opt sts c)"
  by (induction sts arbitrary: c) (simp_all add: watch_invariant_step)

lemma setup_served: "served (fst (runServer_setup w opt)) = []"
  by (simp add: runServer_setup_def Let_def split: option.splits)

lemma setup_stop_contexts: "stop_contexts (fst (runServer_setup w opt)) = []"
  by (simp add: runServer_setup_def Let_def split: option.splits)

lemma start_invariants:
  "served t0 = [] \<Longrightarrow> serve_invariant (coordinator_start t0)"
  "stop_contexts t0 = [] \<Longrightarrow> watch_invariant ctx (coordinator_start t0)"
  by (simp_all add: serve_invariant_def watch_invariant_def coordinator_start_def
                    served_append stop_contexts_append)

lemma runServer_Proceed_eq:
  "runServer_setup w opt = (t0, Proceed) \<Longrightarrow>
   runServer w sched args opt =
     (trace (coordinator_run Background opt sched (coordinator_start t0)),
      coordinator_outcome (coordinator_run Background opt sched (coordinator_start t0)))"
  by (simp add: runServer_def Let_def)

text \<open>What \<^verbatim>\<open>runServer\<close> returns from its concurrent part is made of the one value \<^verbatim>\<open>Serve\<close> returned.\<close>

lemma runServer_returns_served:
  assumes "snd (runServer_setup w opt) = Proceed"
    and "snd (runServer w sched args opt) = Returns r"
  shows "\<exists>v. served (fst (runServer w sched args opt)) = [v] \<and> r = select_done v"
proof -
  obtain t0 where t0: "runServer_setup w opt = (t0, Proceed)"
    using assms(1) by (cases "runServer_setup w opt") simp
  then have "served t0 = []"
    using setup_served [of w opt] by simp
  then have inv: "serve_invariant (coordinator_run Background opt sched (coordinator_start t0))"
    by (simp add: start_invariants serve_invariant_run)
  let ?c = "coordinator_run Background opt sched (coordinator_start t0)"
  from assms(2) t0 have "main ?c = Main_returned r"
    by (simp add: runServer_Proceed_eq coordinator_outcome_def split: main_task.splits)
  with inv have "\<exists>v. served (trace ?c) = [v] \<and> r = select_done v"
    by (auto simp: serve_invariant_def split: serve_task.splits list.splits)
  with t0 show ?thesis by (simp add: runServer_Proceed_eq)
qed

text \<open>Once \<^verbatim>\<open>Serve\<close> has returned, the value is received at the next step of \<^verbatim>\<open>runServer\<close>.\<close>

lemma runServer_receives:
  assumes "snd (runServer_setup w opt) = Proceed"
    and "served (fst (runServer w sched args opt)) = [v]"
  shows "snd (runServer w (sched @ [Main_receives]) args opt) = Returns (select_done v)"
proof -
  obtain t0 where t0: "runServer_setup w opt = (t0, Proceed)"
    using assms(1) by (cases "runServer_setup w opt") simp
  then have "served t0 = []"
    using setup_served [of w opt] by simp
  then have inv: "serve_invariant (coordinator_run Background opt sched (coordinator_start t0))"
    by (simp add: start_invariants serve_invariant_run)
  let ?c = "coordinator_run Background opt sched (coordinator_start t0)"
  from assms(2) t0 have sv: "served (trace ?c) = [v]"
    by (simp add: runServer_Proceed_eq)
  have "main (coordinator_step Background opt Main_receives ?c) = Main_returned (select_done v)"
    using inv sv
    by (auto simp: serve_invariant_def coordinator_step_def split: serve_task.splits list.splits)
  with t0 show ?thesis
    by (simp add: runServer_Proceed_eq coordinator_run_append coordinator_outcome_def)
qed

text \<open>
  C1. When setup went through, the process exits only by \<^verbatim>\<open>runServer\<close> receiving the one
  value \<open>v\<close> that \<^verbatim>\<open>Serve\<close> returned, and the exit code is a function of \<open>v\<close> alone:
  when \<open>v\<close> is \<^verbatim>\<open>http.ErrServerClosed\<close> by the test of line 149 (\<^verbatim>\<open>errors.Is\<close>, which
  also accepts an error that wraps it), or nil, \<^verbatim>\<open>runServer\<close> returns nil and the code is
  0; when \<open>v\<close> is any other error, \<^verbatim>\<open>runServer\<close> returns \<open>v\<close>, \<^verbatim>\<open>run\<close> writes it to
  the standard error stream and the code is 1. And once \<^verbatim>\<open>Serve\<close> has returned, the
  next step of \<^verbatim>\<open>runServer\<close> receives the value and returns.
\<close>

theorem exit_status_from_serve:
  assumes "parseEnv w = (opt0, None)" and "parseOpt w opt0 = (args, opt, None)"
    and "snd (runServer_setup w opt) = Proceed"
  shows "exitOK = 0 \<and> exitError = 1
    \<and> (snd (run w sched) \<noteq> None \<longrightarrow>
         (\<exists>v. served (fst (runServer w sched args opt)) = [v]
            \<and> snd (runServer w sched args opt) = Returns (select_done v)
            \<and> (errors_Is v ErrServerClosed \<longrightarrow>
                  select_done v = None
                  \<and> run w sched = (fst (runServer w sched args opt), Some exitOK))
            \<and> (v = None \<longrightarrow>
                  select_done v = None
                  \<and> run w sched = (fst (runServer w sched args opt), Some exitOK))
            \<and> (\<forall>err. v = Some err \<and> \<not> errors_Is v ErrServerClosed \<longrightarrow>
                  select_done v = Some err
                  \<and> run w sched =
                      (fst (runServer w sched args opt) @ [Stderr (Msg_error err)],
                       Some exitError))))
    \<and> (served (fst (runServer w sched args opt)) = [v] \<longrightarrow>
         snd (runServer w (sched @ [Main_receives]) args opt) = Returns (select_done v)
         \<and> snd (run w (sched @ [Main_receives]))
             = Some (if select_done v = None then exitOK else exitError))"
proof -
  let ?rs = "runServer w sched args opt"
  have run_eq: "run w s =
     (case runServer w s args opt of
        (t, Returns (Some err)) \<Rightarrow> (t @ [Stderr (Msg_error err)], Some exitError)
      | (t, Returns None) \<Rightarrow> (t, Some exitOK)
      | (t, Blocked) \<Rightarrow> (t, None))" for s
    using assms(1,2) by (rule run_after_parse)
  have exits: "\<exists>v. served (fst ?rs) = [v]
            \<and> snd ?rs = Returns (select_done v)
            \<and> (errors_Is v ErrServerClosed \<longrightarrow>
                  select_done v = None \<and> run w sched = (fst ?rs, Some exitOK))
            \<and> (v = None \<longrightarrow> select_done v = None \<and> run w sched = (fst ?rs, Some exitOK))
            \<and> (\<forall>err. v = Some err \<and> \<not> errors_Is v ErrServerClosed \<longrightarrow>
                  select_done v = Some err
                  \<and> run w sched = (fst ?rs @ [Stderr (Msg_error err)], Some exitError))"
    if "snd (run w sched) \<noteq> None"
  proof -
    from that obtain r where r: "snd ?rs = Returns r"
      by (cases ?rs; cases "snd ?rs") (auto simp: run_eq)
    then obtain v where v: "served (fst ?rs) = [v]" "r = select_done v"
      using runServer_returns_served [OF assms(3)] by blast
    obtain t where pair: "?rs = (t, Returns (select_done v))" and t: "fst ?rs = t"
      using r v by (cases ?rs) simp
    have a: "select_done v = None \<and> run w sched = (fst ?rs, Some exitOK)"
      if "errors_Is v ErrServerClosed \<or> v = None"
    proof -
      from that have sd: "select_done v = None" by (auto simp: select_done_def)
      with pair have "?rs = (t, Returns None)" by simp
      then have "run w sched = (t, Some exitOK)"
        by (simp add: run_eq)
      with sd t show ?thesis by simp
    qed
    have b: "select_done v = Some err
        \<and> run w sched = (fst ?rs @ [Stderr (Msg_error err)], Some exitError)"
      if "v = Some err \<and> \<not> errors_Is v ErrServerClosed" for err
    proof -
      from that have sd: "select_done v = Some err" by (auto simp: select_done_def)
      with pair have "?rs = (t, Returns (Some err))" by simp
      then have "run w sched = (t @ [Stderr (Msg_error err)], Some exitError)"
        by (simp add: run_eq)
      with sd t show ?thesis by simp
    qed
    from v r a b show ?thesis by auto
  qed
  have receives: "snd (runServer w (sched @ [Main_receives]) args opt) = Returns (select_done v)
         \<and> snd (run w (sched @ [Main_receives]))
             = Some (if select_done v = None then exitOK else exitError)"
    if "served (fst ?rs) = [v]"
  proof -
    have "snd (runServer w (sched @ [Main_receives]) args opt) = Returns (select_done v)"
      using assms(3) that by (rule runServer_receives)
    then show ?thesis
      by (cases "runServer w (sched @ [Main_receives]) args opt")
         (auto simp: run_eq)
  qed
  from exits receives show ?thesis
    by (simp add: exitOK_def exitError_def)
qed

lemmas example_run_defs =
  runServer_def runServer_setup_def Let_def coordinator_start_def coordinator_step_def
  coordinator_outcome_def example_world_def example_option_def select_storage_def
  initial_project_def NewProject_def NewDataset_def addr_def digit_def

theorem exit_status_from_serve_witness:
  "parseEnv example_world = (zero_option, None)
   \<and> parseOpt example_world zero_option = ([], example_option, None)
   \<and> snd (runServer_setup example_world example_option) = Proceed
   \<and> snd (run example_world
        [Signal_arrives SIGTERM, Watch_receives, Serve_starts,
         Stop_returns (Some (Errorf ''context deadline exceeded'')),
         Serve_returns (Some ErrServerClosed), Main_receives]) = Some 0
   \<and> snd (run example_world
        [Serve_starts, Serve_returns (Some (Errorf ''address already in use'')),
         Main_receives]) = Some 1
   \<and> snd (run example_world
        [Serve_starts, Serve_returns (Some (Wrapped ''serve'' ErrServerClosed)),
         Main_receives]) = Some 0
   \<and> snd (run example_world [Serve_starts, Serve_returns None, Main_receives]) = Some 0"
proof -
  have h1: "parseEnv example_world = (zero_option, None)"
    by (simp add: parseEnv_def example_world_def)
  have h2: "parseOpt example_world zero_option = ([], example_option, None)"
    by (simp add: parseOpt_def example_world_def)
  have h3: "snd (runServer_setup example_world example_option) = Proceed"
    by (simp add: example_run_defs)
  note claim = exit_status_from_serve [OF h1 h2 h3]
  let ?closed = "[Signal_arrives SIGTERM, Watch_receives, Serve_starts,
         Stop_returns (Some (Errorf ''context deadline exceeded'')),
         Serve_returns (Some ErrServerClosed)]"
  let ?bind = "[Serve_starts, Serve_returns (Some (Errorf ''address already in use''))]"
  let ?wrapped = "[Serve_starts, Serve_returns (Some (Wrapped ''serve'' ErrServerClosed))]"
  let ?nil = "[Serve_starts, Serve_returns None]"
  have a: "snd (run example_world (?closed @ [Main_receives])) = Some 0"
    using claim [of ?closed "Some ErrServerClosed"]
    by (simp add: example_run_defs select_done_def errors_Is_def)
  have b: "snd (run example_world (?bind @ [Main_receives])) = Some 1"
    using claim [of ?bind "Some (Errorf ''address already in use'')"]
    by (simp add: example_run_defs select_done_def errors_Is_def)
  have c: "snd (run example_world (?wrapped @ [Main_receives])) = Some 0"
    using claim [of ?wrapped "Some (Wrapped ''serve'' ErrServerClosed)"]
    by (simp add: example_run_defs select_done_def errors_Is_def)
  have d: "snd (run example_world (?nil @ [Main_receives])) = Some 0"
    using claim [of ?nil None]
    by (simp add: example_run_defs select_done_def errors_Is_def)
  from h1 h2 h3 a b c d show ?thesis by simp
qed

section \<open>The stop error\<close>

text \<open>
  Two runs whose schedules differ only in what \<^verbatim>\<open>Stop\<close> returns go through the same
  states, apart from the line about the failed stop in the trace.
\<close>

lemma coordinator_step_stop_succeeds:
  "coordinator_step ctx opt (stop_succeeds st)
     (c\<lparr>trace := filter (\<lambda>e. \<not> failed_to_stop e) (trace c)\<rparr>)
   = (coordinator_step ctx opt st c)
       \<lparr>trace := filter (\<lambda>e. \<not> failed_to_stop e) (trace (coordinator_step ctx opt st c))\<rparr>"
  by (cases st)
     (auto simp: coordinator_step_def Let_def
           split: option.splits watch_task.splits serve_task.splits)

lemma coordinator_run_stop_succeeds:
  "coordinator_run ctx opt (map stop_succeeds sts)
     (c\<lparr>trace := filter (\<lambda>e. \<not> failed_to_stop e) (trace c)\<rparr>)
   = (coordinator_run ctx opt sts c)
       \<lparr>trace := filter (\<lambda>e. \<not> failed_to_stop e) (trace (coordinator_run ctx opt sts c))\<rparr>"
  by (induction sts arbitrary: c) (simp_all add: coordinator_step_stop_succeeds)

lemma setup_no_failed_to_stop:
  "filter (\<lambda>e. \<not> failed_to_stop e) (fst (runServer_setup w opt)) = fst (runServer_setup w opt)"
  by (simp add: runServer_setup_def Let_def split: option.splits)

lemma runServer_stop_succeeds:
  "runServer w (map stop_succeeds sched) args opt
   = (filter (\<lambda>e. \<not> failed_to_stop e) (fst (runServer w sched args opt)),
      snd (runServer w sched args opt))"
proof (cases "runServer_setup w opt")
  case (Pair t0 res)
  show ?thesis
  proof (cases res)
    case (Return err)
    with Pair setup_no_failed_to_stop [of w opt] show ?thesis
      by (simp add: runServer_Return)
  next
    case Proceed
    let ?nf = "\<lambda>e. \<not> failed_to_stop e"
    have t0: "filter ?nf t0 = t0"
      using Pair setup_no_failed_to_stop [of w opt] by simp
    then have "(coordinator_start t0)\<lparr>trace := filter ?nf (trace (coordinator_start t0))\<rparr>
        = coordinator_start t0"
      by (simp add: coordinator_start_def)
    then have "coordinator_run Background opt (map stop_succeeds sched) (coordinator_start t0)
        = (coordinator_run Background opt sched (coordinator_start t0))
            \<lparr>trace := filter ?nf (trace (coordinator_run Background opt sched (coordinator_start t0)))\<rparr>"
      using coordinator_run_stop_succeeds [of Background opt sched "coordinator_start t0"] by simp
    with Pair Proceed show ?thesis
      by (simp add: runServer_Proceed_eq coordinator_outcome_def)
  qed
qed

text \<open>
  C6. When the watch task is inside \<^verbatim>\<open>Stop\<close> and \<^verbatim>\<open>Stop\<close> returns an error, the step
  writes the line about the failed stop to the standard error stream, ends the watch task
  and changes nothing else. Replacing, in any schedule, every result of \<^verbatim>\<open>Stop\<close> by nil
  leaves the exit code of the process as it was and removes exactly those lines from the
  trace: the error of \<^verbatim>\<open>Stop\<close> reaches the log and nothing else. And when the process
  exits after setup went through, the code is 0 or 1 according to the value \<^verbatim>\<open>Serve\<close>
  returned.
\<close>

theorem stop_error_only_logged:
  "(main c = Main_select \<and> watch c = Watch_in_Stop \<longrightarrow>
      coordinator_step ctx opt (Stop_returns (Some err)) c
        = c\<lparr>trace := trace c @ [Stderr (Msg_failed_to_stop err)], watch := Watch_exited\<rparr>)
   \<and> snd (run w (map stop_succeeds sched)) = snd (run w sched)
   \<and> fst (run w (map stop_succeeds sched))
        = filter (\<lambda>e. \<not> failed_to_stop e) (fst (run w sched))
   \<and> (parseEnv w = (opt0, None) \<and> parseOpt w opt0 = (args, cfg, None)
        \<and> snd (runServer_setup w cfg) = Proceed \<and> snd (run w sched) = Some code \<longrightarrow>
        (\<exists>v. served (fst (runServer w sched args cfg)) = [v]
            \<and> code = (if select_done v = None then exitOK else exitError)))"
proof -
  have step: "coordinator_step ctx opt (Stop_returns (Some err)) c
        = c\<lparr>trace := trace c @ [Stderr (Msg_failed_to_stop err)], watch := Watch_exited\<rparr>"
    if "main c = Main_select \<and> watch c = Watch_in_Stop"
    using that by (simp add: coordinator_step_def)
  have same: "run w (map stop_succeeds sched)
      = (filter (\<lambda>e. \<not> failed_to_stop e) (fst (run w sched)), snd (run w sched))"
  proof (cases "parseEnv w")
    case env: (Pair o1 e1)
    show ?thesis
    proof (cases e1)
      case (Some e)
      with env show ?thesis by (simp add: run_def)
    next
      case None
      show ?thesis
      proof (cases "parseOpt w o1")
        case (fields a o2 e2)
        show ?thesis
        proof (cases e2)
          case (Some e)
          with env None fields show ?thesis
            by (cases e) (simp_all add: run_def)
        next
          case n2: None
          have r: "run w s =
             (case runServer w s a o2 of
                (t, Returns (Some err)) \<Rightarrow> (t @ [Stderr (Msg_error err)], Some exitError)
              | (t, Returns None) \<Rightarrow> (t, Some exitOK)
              | (t, Blocked) \<Rightarrow> (t, None))" for s
            using env None fields n2 by (simp add: run_after_parse)
          show ?thesis
          proof (cases "runServer w sched a o2")
            case (Pair t out)
            then have "runServer w (map stop_succeeds sched) a o2
                = (filter (\<lambda>e. \<not> failed_to_stop e) t, out)"
              by (simp add: runServer_stop_succeeds)
            with Pair show ?thesis
              by (cases out) (auto simp: r split: option.splits)
          qed
        qed
      qed
    qed
  qed
  have code: "\<exists>v. served (fst (runServer w sched args cfg)) = [v]
            \<and> code = (if select_done v = None then exitOK else exitError)"
    if h: "parseEnv w = (opt0, None) \<and> parseOpt w opt0 = (args, cfg, None)
        \<and> snd (runServer_setup w cfg) = Proceed \<and> snd (run w sched) = Some code"
  proof -
    have r: "run w sched =
       (case runServer w sched args cfg of
          (t, Returns (Some err)) \<Rightarrow> (t @ [Stderr (Msg_error err)], Some exitError)
        | (t, Returns None) \<Rightarrow> (t, Some exitOK)
        | (t, Blocked) \<Rightarrow> (t, None))"
      using h by (simp add: run_after_parse)
    obtain t out where p: "runServer w sched args cfg = (t, out)"
      by (cases "runServer w sched args cfg")
    with h r obtain x where x: "out = Returns x"
      by (cases out) auto
    with p obtain v where v: "served (fst (runServer w sched args cfg)) = [v]" "x = select_done v"
      using runServer_returns_served [of w cfg sched args x] h by auto
    from h r p x have "code = (if x = None then exitOK else exitError)"
      by (cases x) auto
    with v show ?thesis by blast
  qed
  from step same code show ?thesis by simp
qed

theorem stop_error_only_logged_witness:
  "main \<lparr>trace = [], interrupt = None, watch = Watch_in_Stop, serve = Serve_in_Serve,
         main = Main_select\<rparr> = Main_select
   \<and> coordinator_step Background example_option
        (Stop_returns (Some (Errorf ''context deadline exceeded'')))
        \<lparr>trace = [], interrupt = None, watch = Watch_in_Stop, serve = Serve_in_Serve,
         main = Main_select\<rparr>
      = \<lparr>trace = [Stderr (Msg_failed_to_stop (Errorf ''context deadline exceeded''))],
         interrupt = None, watch = Watch_exited, serve = Serve_in_Serve, main = Main_select\<rparr>
   \<and> run example_world
        [Serve_starts, Signal_arrives SIGTERM, Watch_receives,
         Stop_returns (Some (Errorf ''context deadline exceeded'')),
         Serve_returns (Some ErrServerClosed), Main_receives]
      = ([Call_New ''file::memory:?cache=shared'', Call_SetProject ''proj1'',
          Call_Load (StructSource \<lparr>ID = ''proj1'', Datasets = [\<lparr>dataset_ID = ''ds1''\<rparr>]\<rparr>),
          Call_SetLogLevel ''error'', Call_SetLogFormat ''console'',
          Signal_Notify, Go_watch, Go_serve,
          Stdout (Msg_REST_listening ''0.0.0.0:9050''),
          Stdout (Msg_gRPC_listening ''0.0.0.0:9060''),
          Call_Serve Background ''0.0.0.0:9050'' ''0.0.0.0:9060'',
          Stdout (Msg_receive SIGTERM), Call_Stop Background,
          Stderr (Msg_failed_to_stop (Errorf ''context deadline exceeded'')),
          Serve_returned (Some ErrServerClosed)],
         Some 0)
   \<and> run example_world
        [Serve_starts, Signal_arrives SIGTERM, Watch_receives, Stop_returns None,
         Serve_returns (Some ErrServerClosed), Main_receives]
      = ([Call_New ''file::memory:?cache=shared'', Call_SetProject ''proj1'',
          Call_Load (StructSource \<lparr>ID = ''proj1'', Datasets = [\<lparr>dataset_ID = ''ds1''\<rparr>]\<rparr>),
          Call_SetLogLevel ''error'', Call_SetLogFormat ''console'',
          Signal_Notify, Go_watch, Go_serve,
          Stdout (Msg_REST_listening ''0.0.0.0:9050''),
          Stdout (Msg_gRPC_listening ''0.0.0.0:9060''),
          Call_Serve Background ''0.0.0.0:9050'' ''0.0.0.0:9060'',
          Stdout (Msg_receive SIGTERM), Call_Stop Background,
          Serve_returned (Some ErrServerClosed)],
         Some 0)"
proof -
  let ?c = "\<lparr>trace = [], interrupt = None, watch = Watch_in_Stop, serve = Serve_in_Serve,
         main = Main_select\<rparr>"
  let ?sched = "[Serve_starts, Signal_arrives SIGTERM, Watch_receives,
         Stop_returns (Some (Errorf ''context deadline exceeded'')),
         Serve_returns (Some ErrServerClosed), Main_receives]"
  note claim = stop_error_only_logged
    [of ?c Background example_option "Errorf ''context deadline exceeded''" example_world ?sched
        zero_option "[]" example_option 0]
  have a: "coordinator_step Background example_option
        (Stop_returns (Some (Errorf ''context deadline exceeded''))) ?c
      = \<lparr>trace = [Stderr (Msg_failed_to_stop (Errorf ''context deadline exceeded''))],
         interrupt = None, watch = Watch_exited, serve = Serve_in_Serve, main = Main_select\<rparr>"
    using claim by simp
  have b: "run example_world ?sched
      = ([Call_New ''file::memory:?cache=shared'', Call_SetProject ''proj1'',
          Call_Load (StructSource \<lparr>ID = ''proj1'', Datasets = [\<lparr>dataset_ID = ''ds1''\<rparr>]\<rparr>),
          Call_SetLogLevel ''error'', Call_SetLogFormat ''console'',
          Signal_Notify, Go_watch, Go_serve,
          Stdout (Msg_REST_listening ''0.0.0.0:9050''),
          Stdout (Msg_gRPC_listening ''0.0.0.0:9060''),
          Call_Serve Background ''0.0.0.0:9050'' ''0.0.0.0:9060'',
          Stdout (Msg_receive SIGTERM), Call_Stop Background,
          Stderr (Msg_failed_to_stop (Errorf ''context deadline exceeded'')),
          Serve_returned (Some ErrServerClosed)],
         Some 0)"
    by (simp add: run_def parseEnv_def parseOpt_def example_run_defs select_done_def
                  errors_Is_def exitOK_def)
  have c: "run example_world (map stop_succeeds ?sched)
      = (filter (\<lambda>e. \<not> failed_to_stop e) (fst (run example_world ?sched)),
         snd (run example_world ?sched))"
    using claim by (simp add: prod_eq_iff)
  show ?thesis
    using a c unfolding b by simp
qed

section \<open>The context of the stop call\<close>

lemma runServer_can_return:
  assumes "snd (runServer_setup w opt) = Proceed"
  shows "\<exists>v. snd (runServer w (sched @ [Serve_starts, Serve_returns r, Main_receives]) args opt)
           = Returns (select_done v)"
proof -
  obtain t0 where t0: "runServer_setup w opt = (t0, Proceed)"
    using assms by (cases "runServer_setup w opt") simp
  then have "served t0 = []"
    using setup_served [of w opt] by simp
  then have inv: "serve_invariant (coordinator_run Background opt sched (coordinator_start t0))"
    by (simp add: start_invariants serve_invariant_run)
  let ?c = "coordinator_run Background opt sched (coordinator_start t0)"
  have "\<exists>v. main (coordinator_run Background opt [Serve_starts, Serve_returns r, Main_receives] ?c)
      = Main_returned (select_done v)"
    using inv
    by (cases "serve ?c")
       (auto simp: serve_invariant_def coordinator_step_def Let_def split: list.splits)
  then obtain v where
    "main (coordinator_run Background opt [Serve_starts, Serve_returns r, Main_receives] ?c)
      = Main_returned (select_done v)"
    by blast
  with t0 have "snd (runServer w (sched @ [Serve_starts, Serve_returns r, Main_receives]) args opt)
      = Returns (select_done v)"
    by (simp add: runServer_Proceed_eq coordinator_run_append coordinator_outcome_def)
  then show ?thesis by blast
qed

lemma runServer_stop_contexts:
  "stop_contexts (fst (runServer w sched args opt)) = []
   \<or> stop_contexts (fst (runServer w sched args opt)) = [Background]"
proof (cases "runServer_setup w opt")
  case (Pair t0 res)
  have empty: "stop_contexts t0 = []"
    using Pair setup_stop_contexts [of w opt] by simp
  show ?thesis
  proof (cases res)
    case (Return err)
    with Pair empty show ?thesis by (simp add: runServer_Return)
  next
    case Proceed
    have "watch_invariant Background (coordinator_run Background opt sched (coordinator_start t0))"
      using empty by (simp add: start_invariants watch_invariant_run)
    with Pair Proceed show ?thesis
      by (auto simp: runServer_Proceed_eq watch_invariant_def split: watch_task.splits)
  qed
qed

text \<open>
  C7, as the code has it. Every call of \<^verbatim>\<open>Stop\<close> is given \<^verbatim>\<open>context.Background()\<close>,
  which has no deadline, and there is at most one such call: the command puts no bound on
  the graceful drain. Whatever \<^verbatim>\<open>Stop\<close> did or returned, the process still exits by the
  completion channel: from any point of any schedule after setup, once \<^verbatim>\<open>Serve\<close> has
  returned and its value is received, \<^verbatim>\<open>runServer\<close> returns.
\<close>

theorem stop_context_has_no_deadline:
  "(\<forall>ctx \<in> set (stop_contexts (fst (runServer w sched args opt))).
       ctx = Background \<and> Deadline ctx = None)
   \<and> length (stop_contexts (fst (runServer w sched args opt))) \<le> 1
   \<and> (snd (runServer_setup w opt) = Proceed \<longrightarrow>
        (\<exists>v. snd (runServer w (sched @ [Serve_starts, Serve_returns r, Main_receives]) args opt)
              = Returns (select_done v)))"
  using runServer_stop_contexts [of w sched args opt] runServer_can_return [of w opt sched r args]
  by auto

text \<open>
  C7 as the specification states it fails: in this run the watch task calls \<^verbatim>\<open>Stop\<close>, and
  the context it passes has no deadline.
\<close>

theorem stop_context_deadline_counterexample:
  "stop_contexts (fst (runServer example_world [Signal_arrives SIGTERM, Watch_receives] []
                         example_option)) = [Background]
   \<and> Deadline Background = None"
  by (simp add: example_run_defs)

theorem stop_context_has_no_deadline_witness:
  "Background \<in> set (stop_contexts (fst (runServer example_world
        [Signal_arrives Interrupt, Watch_receives,
         Stop_returns (Some (Errorf ''context deadline exceeded''))] [] example_option)))
   \<and> Deadline Background = None
   \<and> snd (runServer_setup example_world example_option) = Proceed
   \<and> snd (runServer example_world
        ([Signal_arrives Interrupt, Watch_receives,
          Stop_returns (Some (Errorf ''context deadline exceeded''))]
         @ [Serve_starts, Serve_returns (Some ErrServerClosed), Main_receives]) [] example_option)
      = Returns None"
proof -
  let ?sched = "[Signal_arrives Interrupt, Watch_receives,
         Stop_returns (Some (Errorf ''context deadline exceeded''))]"
  note claim = stop_context_has_no_deadline
    [of example_world ?sched "[]" example_option "Some ErrServerClosed"]
  have mem: "Background \<in> set (stop_contexts (fst (runServer example_world ?sched [] example_option)))"
    by (simp add: example_run_defs)
  have h: "snd (runServer_setup example_world example_option) = Proceed"
    by (simp add: example_run_defs)
  from claim mem have "Deadline Background = None" by blast
  moreover from claim h obtain v where
    "snd (runServer example_world (?sched @ [Serve_starts, Serve_returns (Some ErrServerClosed),
        Main_receives]) [] example_option) = Returns (select_done v)"
    by blast
  then have "snd (runServer example_world (?sched @ [Serve_starts,
        Serve_returns (Some ErrServerClosed), Main_receives]) [] example_option) = Returns None"
    by (simp add: example_run_defs select_done_def errors_Is_def)
  ultimately show ?thesis using mem h by simp
qed

end
